theory Spec2Isabelle
  imports Complex_Main "HOL-Library.AList"
begin

section \<open>Python values shared by the tools\<close>

text \<open>
  A Python \<open>str\<close> is modelled as an Isabelle \<open>string\<close>; a character stands for the code
  point of the same number, so the model covers the text with code points below 256
  (every literal of the static tables lies there). Python floats are modelled as reals:
  rounding error, infinities and NaN are outside the model. A raised exception is the
  \<open>Inl\<close> of a sum type and carries what \<open>str(e)\<close> prints; only exceptions below
  \<open>Exception\<close> are modelled (an interpreter exit or a keyboard interrupt is not).
\<close>

datatype pyexn =
    RequestException string
  | TypeError string
  | ZeroDivisionError string
  | OtherException string

fun exn_str :: "pyexn \<Rightarrow> string" where
  "exn_str (RequestException m) = m"
| "exn_str (TypeError m) = m"
| "exn_str (ZeroDivisionError m) = m"
| "exn_str (OtherException m) = m"

text \<open>
  The tools return dictionaries: \<open>{"error": msg}\<close> on failure and a dictionary of data
  fields otherwise. The callers tell the two apart by the test \<open>"error" in result\<close>.
\<close>

datatype 'a dict_result = ErrorDict string | DataDict 'a

fun has_error :: "'a dict_result \<Rightarrow> bool" where
  "has_error (ErrorDict m) = True"
| "has_error (DataDict d) = False"

text \<open>\<open>os.getenv\<close> yields \<open>None\<close> or a string; \<open>not key\<close> holds for \<open>None\<close> and for the empty string.\<close>

fun key_configured :: "string option \<Rightarrow> bool" where
  "key_configured None = False"
| "key_configured (Some k) = (k \<noteq> [])"

subsection \<open>String methods\<close>

text \<open>\<open>str.isspace\<close> on the code points below 256.\<close>

definition is_space :: "char \<Rightarrow> bool" where
  "is_space c =
     (let n = (of_char c :: nat)
      in (9 \<le> n \<and> n \<le> 13) \<or> (28 \<le> n \<and> n \<le> 32) \<or> n = 133 \<or> n = 160)"

definition is_upper :: "char \<Rightarrow> bool" where
  "is_upper c =
     (let n = (of_char c :: nat)
      in (65 \<le> n \<and> n \<le> 90) \<or> (192 \<le> n \<and> n \<le> 222 \<and> n \<noteq> 215))"

definition is_lower :: "char \<Rightarrow> bool" where
  "is_lower c =
     (let n = (of_char c :: nat)
      in (97 \<le> n \<and> n \<le> 122) \<or> n = 170 \<or> n = 181 \<or> n = 186
         \<or> (223 \<le> n \<and> n \<le> 255 \<and> n \<noteq> 247))"

definition lower_char :: "char \<Rightarrow> char" where
  "lower_char c = (if is_upper c then char_of ((of_char c :: nat) + 32) else c)"

text \<open>
  The upper-case form of a lower-case letter, where it is a single code point below 256
  (for \<open>0xAA\<close>, \<open>0xB5\<close>, \<open>0xBA\<close>, \<open>0xDF\<close> and \<open>0xFF\<close> it is not, and the model leaves the
  letter as it is).
\<close>

definition upper_char :: "char \<Rightarrow> char" where
  "upper_char c =
     (let n = (of_char c :: nat)
      in if (97 \<le> n \<and> n \<le> 122) \<or> (224 \<le> n \<and> n \<le> 254 \<and> n \<noteq> 247)
         then char_of (n - 32) else c)"

definition py_lower :: "string \<Rightarrow> string" where
  "py_lower s = map lower_char s"

definition py_strip :: "string \<Rightarrow> string" where
  "py_strip s = rev (dropWhile is_space (rev (dropWhile is_space s)))"

text \<open>
  \<open>str.title\<close>: a cased character is upper-cased when the character before it is not
  cased and lower-cased otherwise.
\<close>

fun title_from :: "bool \<Rightarrow> string \<Rightarrow> string" where
  "title_from previous_is_cased [] = []"
| "title_from previous_is_cased (c # cs) =
     (if previous_is_cased then lower_char c else upper_char c)
       # title_from (is_upper c \<or> is_lower c) cs"

definition py_title :: "string \<Rightarrow> string" where
  "py_title s = title_from False s"

section \<open>Currency lookup (mcp/currency_tools.py)\<close>

record currency =
  code :: string
  name :: string

definition country_currency_map :: "(string \<times> currency) list" where
  "country_currency_map =
     [(''japan'', \<lparr>code = ''JPY'', name = ''Japanese Yen''\<rparr>),
     (''india'', \<lparr>code = ''INR'', name = ''Indian Rupee''\<rparr>),
     (''united states'', \<lparr>code = ''USD'', name = ''US Dollar''\<rparr>),
     (''usa'', \<lparr>code = ''USD'', name = ''US Dollar''\<rparr>),
     (''united kingdom'', \<lparr>code = ''GBP'', name = ''British Pound Sterling''\<rparr>),
     (''uk'', \<lparr>code = ''GBP'', name = ''British Pound Sterling''\<rparr>),
     (''south korea'', \<lparr>code = ''KRW'', name = ''South Korean Won''\<rparr>),
     (''korea'', \<lparr>code = ''KRW'', name = ''South Korean Won''\<rparr>),
     (''china'', \<lparr>code = ''CNY'', name = ''Chinese Yuan''\<rparr>),
     (''germany'', \<lparr>code = ''EUR'', name = ''Euro''\<rparr>),
     (''france'', \<lparr>code = ''EUR'', name = ''Euro''\<rparr>),
     (''italy'', \<lparr>code = ''EUR'', name = ''Euro''\<rparr>),
     (''spain'', \<lparr>code = ''EUR'', name = ''Euro''\<rparr>),
     (''canada'', \<lparr>code = ''CAD'', name = ''Canadian Dollar''\<rparr>),
     (''australia'', \<lparr>code = ''AUD'', name = ''Australian Dollar''\<rparr>),
     (''brazil'', \<lparr>code = ''BRL'', name = ''Brazilian Real''\<rparr>),
     (''mexico'', \<lparr>code = ''MXN'', name = ''Mexican Peso''\<rparr>),
     (''switzerland'', \<lparr>code = ''CHF'', name = ''Swiss Franc''\<rparr>),
     (''singapore'', \<lparr>code = ''SGD'', name = ''Singapore Dollar''\<rparr>),
     (''hong kong'', \<lparr>code = ''HKD'', name = ''Hong Kong Dollar''\<rparr>),
     (''russia'', \<lparr>code = ''RUB'', name = ''Russian Ruble''\<rparr>),
     (''south africa'', \<lparr>code = ''ZAR'', name = ''South African Rand''\<rparr>),
     (''turkey'', \<lparr>code = ''TRY'', name = ''Turkish Lira''\<rparr>),
     (''saudi arabia'', \<lparr>code = ''SAR'', name = ''Saudi Riyal''\<rparr>),
     (''uae'', \<lparr>code = ''AED'', name = ''UAE Dirham''\<rparr>),
     (''thailand'', \<lparr>code = ''THB'', name = ''Thai Baht''\<rparr>),
     (''malaysia'', \<lparr>code = ''MYR'', name = ''Malaysian Ringgit''\<rparr>),
     (''indonesia'', \<lparr>code = ''IDR'', name = ''Indonesian Rupiah''\<rparr>),
     (''philippines'', \<lparr>code = ''PHP'', name = ''Philippine Peso''\<rparr>),
     (''vietnam'', \<lparr>code = ''VND'', name = ''Vietnamese Dong''\<rparr>),
     (''poland'', \<lparr>code = ''PLN'', name = ''Polish Zloty''\<rparr>),
     (''sweden'', \<lparr>code = ''SEK'', name = ''Swedish Krona''\<rparr>),
     (''norway'', \<lparr>code = ''NOK'', name = ''Norwegian Krone''\<rparr>),
     (''denmark'', \<lparr>code = ''DKK'', name = ''Danish Krone''\<rparr>),
     (''new zealand'', \<lparr>code = ''NZD'', name = ''New Zealand Dollar''\<rparr>),
     (''argentina'', \<lparr>code = ''ARS'', name = ''Argentine Peso''\<rparr>),
     (''chile'', \<lparr>code = ''CLP'', name = ''Chilean Peso''\<rparr>),
     (''colombia'', \<lparr>code = ''COP'', name = ''Colombian Peso''\<rparr>),
     (''egypt'', \<lparr>code = ''EGP'', name = ''Egyptian Pound''\<rparr>),
     (''israel'', \<lparr>code = ''ILS'', name = ''Israeli Shekel''\<rparr>),
     (''pakistan'', \<lparr>code = ''PKR'', name = ''Pakistani Rupee''\<rparr>),
     (''bangladesh'', \<lparr>code = ''BDT'', name = ''Bangladeshi Taka''\<rparr>),
     (''nigeria'', \<lparr>code = ''NGN'', name = ''Nigerian Naira''\<rparr>),
     (''kenya'', \<lparr>code = ''KES'', name = ''Kenyan Shilling''\<rparr>)]"

record currency_info =
  country :: string
  currency_code :: string
  currency_name :: string

text \<open>
  The network as the currency tool sees it: what the rate API answers to a GET of a URL
  (an exception of \<open>requests.get\<close>, \<open>raise_for_status\<close> or \<open>response.json\<close>, or the decoded
  JSON object), and the URLs requested so far. Every method of the tool takes the
  network and returns it, so that the requests a method makes can be read off.
\<close>

record rate_json =
  result :: "string option"
  error_type :: "string option"
  conversion_rates :: "(string \<rightharpoonup> real) option"
  time_last_update_utc :: "string option"
  time_next_update_utc :: "string option"

record network =
  respond :: "string \<Rightarrow> pyexn + rate_json"
  requested :: "string list"

definition requests_get :: "string \<Rightarrow> network \<Rightarrow> (pyexn + rate_json) \<times> network" where
  "requests_get url net = (respond net url, net\<lparr>requested := requested net @ [url]\<rparr>)"

definition get_country_currency ::
  "string \<Rightarrow> network \<Rightarrow> currency_info dict_result \<times> network" where
  "get_country_currency country_name net =
     (let country_lower = py_strip (py_lower country_name);
          currency_info = map_of country_currency_map country_lower
      in case currency_info of
           None \<Rightarrow>
             (ErrorDict (''Currency information not found for country: '' @ country_name), net)
         | Some entry \<Rightarrow>
             (DataDict \<lparr>country = py_title country_name,
                        currency_code = code entry,
                        currency_name = name entry\<rparr>, net))"

text \<open>A rate is the number of the response, or the text put in its place.\<close>

datatype rate_value = RateNumber real | RateText string

record rate_snapshot =
  base_currency :: string
  rates :: "(string \<times> rate_value) list"
  last_updated :: "string option"
  next_update :: "string option"

definition base_url :: string where
  "base_url = ''https://v6.exchangerate-api.com/v6''"

definition rate_url :: "string \<Rightarrow> string \<Rightarrow> string" where
  "rate_url api_key base = base_url @ ''/'' @ api_key @ ''/latest/'' @ base"

text \<open>\<open>data.get("conversion_rates", {})\<close>: the object of the response, or the empty one.\<close>

definition conversion_rates_or_empty :: "rate_json \<Rightarrow> (string \<rightharpoonup> real)" where
  "conversion_rates_or_empty data =
     (case conversion_rates data of None \<Rightarrow> Map.empty | Some cr \<Rightarrow> cr)"

text \<open>
  The loop over the targets. The dictionary \<open>rates\<close> keeps insertion order, and storing
  under a key it already has replaces the entry in place: \<open>AList.update\<close>.
\<close>

definition collect_rates ::
  "(string \<rightharpoonup> real) \<Rightarrow> string list \<Rightarrow> (string \<times> rate_value) list" where
  "collect_rates conversion target_currencies =
     fold (\<lambda>target rates.
             AList.update target
               (case conversion target of
                  Some r \<Rightarrow> RateNumber r
                | None \<Rightarrow> RateText ''Not available'') rates)
          target_currencies []"

definition get_exchange_rates ::
  "string option \<Rightarrow> string \<Rightarrow> string list \<Rightarrow> network
     \<Rightarrow> (pyexn + rate_snapshot dict_result) \<times> network" where
  "get_exchange_rates api_key base target_currencies net =
     (case api_key of
        None \<Rightarrow> (Inr (ErrorDict ''EXCHANGERATE_API_KEY not configured''), net)
      | Some k \<Rightarrow>
          if k = [] then (Inr (ErrorDict ''EXCHANGERATE_API_KEY not configured''), net)
          else
            (case requests_get (rate_url k base) net of
               (Inl (RequestException m), net') \<Rightarrow>
                 (Inr (ErrorDict (''Failed to fetch exchange rates: '' @ m)), net')
             | (Inl e, net') \<Rightarrow> (Inl e, net')
             | (Inr data, net') \<Rightarrow>
                 if result data \<noteq> Some ''success''
                 then (Inr (ErrorDict (''API error: '' @
                         (case error_type data of
                            None \<Rightarrow> ''Unknown error'' | Some t \<Rightarrow> t))), net')
                 else
                   (Inr (DataDict
                      \<lparr>base_currency = base,
                       rates = collect_rates (conversion_rates_or_empty data)
                                 target_currencies,
                       last_updated = time_last_update_utc data,
                       next_update = time_next_update_utc data\<rparr>), net')))"

record country_rates = currency_info +
  exchange_rates :: "rate_snapshot dict_result"

text \<open>
  The targets asked for a base currency: the list \<open>["USD", "EUR", "GBP", "INR"]\<close>, from
  which \<open>list.remove\<close> takes the first occurrence of the base when it is there.
\<close>

definition default_targets :: "string list" where
  "default_targets = [''USD'', ''EUR'', ''GBP'', ''INR'']"

definition targets_for :: "string \<Rightarrow> string list" where
  "targets_for base =
     (if base \<in> set default_targets then remove1 base default_targets else default_targets)"

definition get_all_rates_for_country ::
  "string option \<Rightarrow> string \<Rightarrow> network
     \<Rightarrow> (pyexn + country_rates dict_result) \<times> network" where
  "get_all_rates_for_country api_key country_name net =
     (case get_country_currency country_name net of
        (ErrorDict m, net1) \<Rightarrow> (Inr (ErrorDict m), net1)
      | (DataDict info, net1) \<Rightarrow>
          (let base = currency_code info;
               target_currencies = targets_for base
           in case get_exchange_rates api_key base target_currencies net1 of
                (Inl e, net2) \<Rightarrow> (Inl e, net2)
              | (Inr exchange_data, net2) \<Rightarrow>
                  (Inr (DataDict
                     \<lparr>country = country info,
                      currency_code = currency_code info,
                      currency_name = currency_name info,
                      exchange_rates = exchange_data\<rparr>), net2)))"

section \<open>Market lookup (mcp/stock_tools.py)\<close>

record exchange_record =
  exchanges :: "string list"
  indices :: "(string \<times> string) list"
  primary_exchange :: string
  hq_location :: string

definition stock_exchanges :: "(string \<times> exchange_record) list" where
  "stock_exchanges =
     [(''japan'',
       \<lparr>exchanges = [''Tokyo Stock Exchange (TSE)'', ''Osaka Exchange (OSE)''],
        indices = [(''Nikkei 225'', ''^N225''), (''TOPIX'', ''^TOPX''), (''JPX-Nikkei 400'', ''^JPN400'')],
        primary_exchange = ''Tokyo Stock Exchange'',
        hq_location = ''Tokyo, Japan''\<rparr>),
      (''india'',
       \<lparr>exchanges = [''National Stock Exchange (NSE)'', ''Bombay Stock Exchange (BSE)''],
        indices = [(''NIFTY 50'', ''^NSEI''), (''SENSEX'', ''^BSESN''), (''NIFTY Bank'', ''^NSEBANK'')],
        primary_exchange = ''National Stock Exchange of India'',
        hq_location = ''Mumbai, Maharashtra, India''\<rparr>),
      (''united states'',
       \<lparr>exchanges = [''New York Stock Exchange (NYSE)'', ''NASDAQ'', ''CBOE''],
        indices = [(''S&P 500'', ''^GSPC''), (''Dow Jones'', ''^DJI''), (''NASDAQ Composite'', ''^IXIC''), (''Russell 2000'', ''^RUT'')],
        primary_exchange = ''New York Stock Exchange'',
        hq_location = ''New York, NY, USA''\<rparr>),
      (''usa'',
       \<lparr>exchanges = [''New York Stock Exchange (NYSE)'', ''NASDAQ'', ''CBOE''],
        indices = [(''S&P 500'', ''^GSPC''), (''Dow Jones'', ''^DJI''), (''NASDAQ Composite'', ''^IXIC''), (''Russell 2000'', ''^RUT'')],
        primary_exchange = ''New York Stock Exchange'',
        hq_location = ''New York, NY, USA''\<rparr>),
      (''united kingdom'',
       \<lparr>exchanges = [''London Stock Exchange (LSE)''],
        indices = [(''FTSE 100'', ''^FTSE''), (''FTSE 250'', ''^FTMC''), (''FTSE All-Share'', ''^FTAS'')],
        primary_exchange = ''London Stock Exchange'',
        hq_location = ''London, United Kingdom''\<rparr>),
      (''uk'',
       \<lparr>exchanges = [''London Stock Exchange (LSE)''],
        indices = [(''FTSE 100'', ''^FTSE''), (''FTSE 250'', ''^FTMC'')],
        primary_exchange = ''London Stock Exchange'',
        hq_location = ''London, United Kingdom''\<rparr>),
      (''south korea'',
       \<lparr>exchanges = [''Korea Exchange (KRX)''],
        indices = [(''KOSPI'', ''^KS11''), (''KOSDAQ'', ''^KQ11'')],
        primary_exchange = ''Korea Exchange'',
        hq_location = ''Seoul, South Korea''\<rparr>),
      (''korea'',
       \<lparr>exchanges = [''Korea Exchange (KRX)''],
        indices = [(''KOSPI'', ''^KS11''), (''KOSDAQ'', ''^KQ11'')],
        primary_exchange = ''Korea Exchange'',
        hq_location = ''Seoul, South Korea''\<rparr>),
      (''china'',
       \<lparr>exchanges = [''Shanghai Stock Exchange (SSE)'', ''Shenzhen Stock Exchange (SZSE)'', ''Hong Kong Stock Exchange (HKEX)''],
        indices = [(''SSE Composite'', ''000001.SS''), (''Shenzhen Component'', ''399001.SZ''), (''Hang Seng'', ''^HSI'')],
        primary_exchange = ''Shanghai Stock Exchange'',
        hq_location = ''Shanghai, China''\<rparr>),
      (''germany'',
       \<lparr>exchanges = [''Frankfurt Stock Exchange (FWB)''],
        indices = [(''DAX'', ''^GDAXI''), (''MDAX'', ''^MDAXI''), (''TecDAX'', ''^TECDAX'')],
        primary_exchange = ''Frankfurt Stock Exchange'',
        hq_location = ''Frankfurt, Germany''\<rparr>),
      (''france'',
       \<lparr>exchanges = [''Euronext Paris''],
        indices = [(''CAC 40'', ''^FCHI'')],
        primary_exchange = ''Euronext Paris'',
        hq_location = ''Paris, France''\<rparr>),
      (''canada'',
       \<lparr>exchanges = [''Toronto Stock Exchange (TSX)''],
        indices = [(''S&P/TSX Composite'', ''^GSPTSE''), (''S&P/TSX 60'', ''^TX60'')],
        primary_exchange = ''Toronto Stock Exchange'',
        hq_location = ''Toronto, Ontario, Canada''\<rparr>),
      (''australia'',
       \<lparr>exchanges = [''Australian Securities Exchange (ASX)''],
        indices = [(''ASX 200'', ''^AXJO''), (''All Ordinaries'', ''^AORD'')],
        primary_exchange = ''Australian Securities Exchange'',
        hq_location = ''Sydney, NSW, Australia''\<rparr>),
      (''hong kong'',
       \<lparr>exchanges = [''Hong Kong Stock Exchange (HKEX)''],
        indices = [(''Hang Seng'', ''^HSI''), (''Hang Seng Tech'', ''^HSTECH'')],
        primary_exchange = ''Hong Kong Stock Exchange'',
        hq_location = ''Hong Kong''\<rparr>),
      (''singapore'',
       \<lparr>exchanges = [''Singapore Exchange (SGX)''],
        indices = [(''Straits Times Index'', ''^STI'')],
        primary_exchange = ''Singapore Exchange'',
        hq_location = ''Singapore''\<rparr>),
      (''brazil'',
       \<lparr>exchanges = [''B3 - Brasil Bolsa Balc'' @ [CHR 0xE3] @ ''o''],
        indices = [(''Bovespa'', ''^BVSP'')],
        primary_exchange = ''B3 - Brasil Bolsa Balc'' @ [CHR 0xE3] @ ''o'',
        hq_location = ''S'' @ [CHR 0xE3] @ ''o Paulo, Brazil''\<rparr>),
      (''switzerland'',
       \<lparr>exchanges = [''SIX Swiss Exchange''],
        indices = [(''SMI'', ''^SSMI'')],
        primary_exchange = ''SIX Swiss Exchange'',
        hq_location = ''Zurich, Switzerland''\<rparr>),
      (''spain'',
       \<lparr>exchanges = [''Bolsa de Madrid''],
        indices = [(''IBEX 35'', ''^IBEX'')],
        primary_exchange = ''Bolsa de Madrid'',
        hq_location = ''Madrid, Spain''\<rparr>),
      (''italy'',
       \<lparr>exchanges = [''Borsa Italiana''],
        indices = [(''FTSE MIB'', ''FTSEMIB.MI'')],
        primary_exchange = ''Borsa Italiana'',
        hq_location = ''Milan, Italy''\<rparr>),
      (''netherlands'',
       \<lparr>exchanges = [''Euronext Amsterdam''],
        indices = [(''AEX'', ''^AEX'')],
        primary_exchange = ''Euronext Amsterdam'',
        hq_location = ''Amsterdam, Netherlands''\<rparr>),
      (''sweden'',
       \<lparr>exchanges = [''Nasdaq Stockholm''],
        indices = [(''OMX Stockholm 30'', ''^OMX'')],
        primary_exchange = ''Nasdaq Stockholm'',
        hq_location = ''Stockholm, Sweden''\<rparr>),
      (''russia'',
       \<lparr>exchanges = [''Moscow Exchange (MOEX)''],
        indices = [(''MOEX Russia Index'', ''IMOEX.ME'')],
        primary_exchange = ''Moscow Exchange'',
        hq_location = ''Moscow, Russia''\<rparr>),
      (''mexico'',
       \<lparr>exchanges = [''Mexican Stock Exchange (BMV)''],
        indices = [(''IPC'', ''^MXX'')],
        primary_exchange = ''Mexican Stock Exchange'',
        hq_location = ''Mexico City, Mexico''\<rparr>),
      (''thailand'',
       \<lparr>exchanges = [''Stock Exchange of Thailand (SET)''],
        indices = [(''SET Index'', ''^SET.BK'')],
        primary_exchange = ''Stock Exchange of Thailand'',
        hq_location = ''Bangkok, Thailand''\<rparr>),
      (''indonesia'',
       \<lparr>exchanges = [''Indonesia Stock Exchange (IDX)''],
        indices = [(''Jakarta Composite'', ''^JKSE'')],
        primary_exchange = ''Indonesia Stock Exchange'',
        hq_location = ''Jakarta, Indonesia''\<rparr>),
      (''malaysia'',
       \<lparr>exchanges = [''Bursa Malaysia''],
        indices = [(''KLCI'', ''^KLSE'')],
        primary_exchange = ''Bursa Malaysia'',
        hq_location = ''Kuala Lumpur, Malaysia''\<rparr>)]"

text \<open>
  What the market-data provider gives for one ticker: the \<open>previousClose\<close> entry of the
  metadata dictionary \<open>info\<close> (no such key, or the value under it, which may be null), and
  the rows of \<open>history(period="5d")\<close>, each with its time stamp as \<open>strftime\<close> prints it
  and its closing price.
\<close>

datatype pyval = PyNone | PyNum real

record bar =
  stamp :: string
  close :: real

record ticker_data =
  info_previousClose :: "pyval option"
  hist :: "bar list"

fun truthy :: "pyval \<Rightarrow> bool" where
  "truthy PyNone = False"
| "truthy (PyNum x) = (x \<noteq> 0)"

definition quote_char :: string where
  "quote_char = [CHR 0x27]"

text \<open>
  The operators on a float and a value of the metadata; a null operand is a type error,
  with the message of the interpreter.
\<close>

definition none_operand_message :: "string \<Rightarrow> string" where
  "none_operand_message operator =
     ''unsupported operand type(s) for '' @ operator @ '': '' @ quote_char @ ''float''
       @ quote_char @ '' and '' @ quote_char @ ''NoneType'' @ quote_char"

fun py_sub :: "real \<Rightarrow> pyval \<Rightarrow> pyexn + real" where
  "py_sub a (PyNum b) = Inr (a - b)"
| "py_sub a PyNone = Inl (TypeError (none_operand_message ''-''))"

fun py_truediv :: "real \<Rightarrow> pyval \<Rightarrow> pyexn + real" where
  "py_truediv a (PyNum b) =
     (if b = 0 then Inl (ZeroDivisionError ''float division by zero'') else Inr (a / b))"
| "py_truediv a PyNone = Inl (TypeError (none_operand_message ''/''))"

text \<open>\<open>round(x, 2)\<close>: to the nearest hundredth, a tie to the even one.\<close>

definition round2 :: "real \<Rightarrow> real" where
  "round2 x =
     (let y = x * 100; f = \<lfloor>y\<rfloor>; d = y - of_int f
      in of_int (if d < 1 / 2 then f else if 1 / 2 < d then f + 1
                 else if even f then f else f + 1) / 100)"

fun py_round2 :: "pyval \<Rightarrow> pyexn + real" where
  "py_round2 (PyNum x) = Inr (round2 x)"
| "py_round2 PyNone =
     Inl (TypeError (''type NoneType doesn'' @ quote_char @ ''t define __round__ method''))"

fun bind_exn :: "pyexn + 'a \<Rightarrow> ('a \<Rightarrow> pyexn + 'b) \<Rightarrow> pyexn + 'b" where
  "bind_exn (Inl e) f = Inl e"
| "bind_exn (Inr x) f = f x"

record index_quote =
  symbol :: string
  current_value :: real
  previous_close :: real
  change :: real
  change_percent :: real
  quote_last_updated :: string

datatype index_entry =
    IndexQuote index_quote
  | IndexFailure string string

text \<open>
  \<open>hist['Close'].iloc[-1]\<close> and the previous close of a history with at least one row:
  \<open>info.get('previousClose', hist['Close'].iloc[-2] if len(hist) > 1 else current_price)\<close>.
\<close>

definition current_price_of :: "ticker_data \<Rightarrow> real" where
  "current_price_of td = close (last (hist td))"

definition previous_close_of :: "ticker_data \<Rightarrow> pyval" where
  "previous_close_of td =
     (case info_previousClose td of
        Some v \<Rightarrow> v
      | None \<Rightarrow>
          PyNum (if 1 < length (hist td) then close (hist td ! (length (hist td) - 2))
                 else current_price_of td))"

text \<open>
  \<open>(change / previous_close) * 100 if previous_close else 0\<close>: the division stands in the
  branch of a truthy previous close.
\<close>

definition change_percent_of :: "real \<Rightarrow> pyval \<Rightarrow> pyexn + real" where
  "change_percent_of chg prev =
     (if truthy prev then bind_exn (py_truediv chg prev) (\<lambda>q. Inr (q * 100)) else Inr 0)"

text \<open>The body of the \<open>try\<close> for one ticker, after the provider has answered.\<close>

definition index_body :: "string \<Rightarrow> ticker_data \<Rightarrow> pyexn + index_entry" where
  "index_body ticker_symbol td =
     (if hist td \<noteq> [] then
        (let current_price = current_price_of td;
             prev = previous_close_of td
         in bind_exn (py_sub current_price prev) (\<lambda>chg.
            bind_exn (change_percent_of chg prev) (\<lambda>pct.
            bind_exn (py_round2 prev) (\<lambda>rounded_prev.
              Inr (IndexQuote
                \<lparr>symbol = ticker_symbol,
                 current_value = round2 current_price,
                 previous_close = rounded_prev,
                 change = round2 chg,
                 change_percent = round2 pct,
                 quote_last_updated = stamp (last (hist td))\<rparr>)))))
      else Inr (IndexFailure ticker_symbol ''No data available''))"

text \<open>
  One pass of the loop: the provider's answer for the ticker (or the exception it
  raised), the body, and the handler \<open>except Exception\<close> around both.
\<close>

definition index_entry_for :: "string \<Rightarrow> pyexn + ticker_data \<Rightarrow> index_entry" where
  "index_entry_for ticker_symbol fetched =
     (case bind_exn fetched (index_body ticker_symbol) of
        Inr entry \<Rightarrow> entry
      | Inl e \<Rightarrow> IndexFailure ticker_symbol (''Failed to fetch data: '' @ exn_str e))"

record index_values =
  index_country :: string
  index_data :: "(string \<times> index_entry) list"

definition get_index_values ::
  "(string \<Rightarrow> pyexn + ticker_data) \<Rightarrow> string \<Rightarrow> index_values dict_result" where
  "get_index_values yf country_name =
     (let country_lower = py_strip (py_lower country_name)
      in case map_of stock_exchanges country_lower of
           None \<Rightarrow>
             ErrorDict (''Stock exchange information not found for country: '' @ country_name)
         | Some ex \<Rightarrow>
             DataDict
               \<lparr>index_country = py_title country_name,
                index_data =
                  fold (\<lambda>(index_name, ticker_symbol) acc.
                          AList.update index_name
                            (index_entry_for ticker_symbol (yf ticker_symbol)) acc)
                       (indices ex) []\<rparr>)"


section \<open>Location lookup (mcp/maps_tools.py)\<close>

record location =
  address :: string
  lat :: real
  lng :: real
  query :: string

definition exchange_locations :: "(string \<times> location) list" where
  "exchange_locations =
     [(''Tokyo Stock Exchange'',
       \<lparr>address = ''Tokyo Stock Exchange, 2-1 Nihonbashi-Kabutocho, Chuo City, Tokyo, Japan'',
        lat = 35.6809, lng = 139.7776,
        query = ''Tokyo Stock Exchange''\<rparr>),
      (''National Stock Exchange of India'',
       \<lparr>address = ''Exchange Plaza, Bandra Kurla Complex, Bandra East, Mumbai, Maharashtra 400051, India'',
        lat = 19.0633, lng = 72.8706,
        query = ''National Stock Exchange of India, Mumbai''\<rparr>),
      (''New York Stock Exchange'',
       \<lparr>address = ''11 Wall St, New York, NY 10005, United States'',
        lat = 40.7074, lng = -74.0113,
        query = ''New York Stock Exchange''\<rparr>),
      (''London Stock Exchange'',
       \<lparr>address = ''10 Paternoster Square, London EC4M 7LS, United Kingdom'',
        lat = 51.5142, lng = -0.0991,
        query = ''London Stock Exchange''\<rparr>),
      (''Korea Exchange'',
       \<lparr>address = ''76 Yeouinaru-ro, Yeongdeungpo-gu, Seoul, South Korea'',
        lat = 37.5262, lng = 126.9282,
        query = ''Korea Exchange, Seoul''\<rparr>),
      (''Shanghai Stock Exchange'',
       \<lparr>address = ''528 Pudong South Road, Pudong, Shanghai, China'',
        lat = 31.2385, lng = 121.5007,
        query = ''Shanghai Stock Exchange''\<rparr>),
      (''Frankfurt Stock Exchange'',
       \<lparr>address = ''B'' @ [CHR 0xF6] @ ''rsenplatz 4, 60313 Frankfurt am Main, Germany'',
        lat = 50.1135, lng = 8.6762,
        query = ''Frankfurt Stock Exchange''\<rparr>),
      (''Euronext Paris'',
       \<lparr>address = ''39 Rue Cambon, 75001 Paris, France'',
        lat = 48.8675, lng = 2.3265,
        query = ''Euronext Paris''\<rparr>),
      (''Toronto Stock Exchange'',
       \<lparr>address = ''The Exchange Tower, 130 King St W, Toronto, ON M5X 1J2, Canada'',
        lat = 43.6478, lng = -79.3813,
        query = ''Toronto Stock Exchange''\<rparr>),
      (''Australian Securities Exchange'',
       \<lparr>address = ''20 Bridge St, Sydney NSW 2000, Australia'',
        lat = -33.8646, lng = 151.2101,
        query = ''Australian Securities Exchange, Sydney''\<rparr>),
      (''Hong Kong Stock Exchange'',
       \<lparr>address = ''8 Finance St, Central, Hong Kong'',
        lat = 22.2845, lng = 114.1580,
        query = ''Hong Kong Stock Exchange''\<rparr>),
      (''Singapore Exchange'',
       \<lparr>address = ''2 Shenton Way, Singapore 068804'',
        lat = 1.2789, lng = 103.8497,
        query = ''Singapore Exchange''\<rparr>),
      (''B3 - Brasil Bolsa Balc'' @ [CHR 0xE3] @ ''o'',
       \<lparr>address = ''Pra'' @ [CHR 0xE7] @ ''a Antonio Prado, 48 - Centro Hist'' @ [CHR 0xF3] @ ''rico de S'' @ [CHR 0xE3] @ ''o Paulo, S'' @ [CHR 0xE3] @ ''o Paulo, Brazil'',
        lat = -23.5449, lng = -46.6342,
        query = ''B3 Stock Exchange, S'' @ [CHR 0xE3] @ ''o Paulo''\<rparr>),
      (''SIX Swiss Exchange'',
       \<lparr>address = ''Pfingstweidstrasse 110, 8005 Z'' @ [CHR 0xFC] @ ''rich, Switzerland'',
        lat = 47.3897, lng = 8.5162,
        query = ''SIX Swiss Exchange, Zurich''\<rparr>),
      (''Bolsa de Madrid'',
       \<lparr>address = ''Plaza de la Lealtad, 1, 28014 Madrid, Spain'',
        lat = 40.4169, lng = -3.6943,
        query = ''Bolsa de Madrid''\<rparr>),
      (''Borsa Italiana'',
       \<lparr>address = ''Piazza Affari, 6, 20123 Milano MI, Italy'',
        lat = 45.4654, lng = 9.1859,
        query = ''Borsa Italiana, Milan''\<rparr>),
      (''Euronext Amsterdam'',
       \<lparr>address = ''Beursplein 5, 1012 JW Amsterdam, Netherlands'',
        lat = 52.3736, lng = 4.8936,
        query = ''Euronext Amsterdam''\<rparr>),
      (''Nasdaq Stockholm'',
       \<lparr>address = ''Tullvaktsv'' @ [CHR 0xE4] @ ''gen 15, 115 56 Stockholm, Sweden'',
        lat = 59.3326, lng = 18.0824,
        query = ''Nasdaq Stockholm''\<rparr>),
      (''Moscow Exchange'',
       \<lparr>address = ''13 Bolshoy Kislovsky Lane, Moscow, Russia'',
        lat = 55.7595, lng = 37.6028,
        query = ''Moscow Exchange''\<rparr>),
      (''Mexican Stock Exchange'',
       \<lparr>address = ''Paseo de la Reforma 255, Cuauht'' @ [CHR 0xE9] @ ''moc, Mexico City, Mexico'',
        lat = 19.4284, lng = -99.1677,
        query = ''Mexican Stock Exchange, Mexico City''\<rparr>),
      (''Stock Exchange of Thailand'',
       \<lparr>address = ''93 Ratchadaphisek Road, Din Daeng, Bangkok, Thailand'',
        lat = 13.7649, lng = 100.5630,
        query = ''Stock Exchange of Thailand, Bangkok''\<rparr>),
      (''Indonesia Stock Exchange'',
       \<lparr>address = ''Jl. Jend. Sudirman Kav 52-53, Jakarta 12190, Indonesia'',
        lat = -6.2258, lng = 106.8086,
        query = ''Indonesia Stock Exchange, Jakarta''\<rparr>),
      (''Bursa Malaysia'',
       \<lparr>address = ''15 Jalan Semantan, Bukit Damansara, 50490 Kuala Lumpur, Malaysia'',
        lat = 3.1520, lng = 101.6695,
        query = ''Bursa Malaysia, Kuala Lumpur''\<rparr>)]"

text \<open>
  \<open>s.replace(old, new)\<close>: the occurrences of \<open>old\<close> are replaced from the left, each
  starting after the end of the one before. \<open>replace_from k\<close> has \<open>k\<close> characters of a
  match still to pass over. For an empty \<open>old\<close> Python puts \<open>new\<close> before every character
  and at the end.
\<close>

fun replace_from :: "nat \<Rightarrow> string \<Rightarrow> string \<Rightarrow> string \<Rightarrow> string" where
  "replace_from k old new [] = []"
| "replace_from (Suc k) old new (c # cs) = replace_from k old new cs"
| "replace_from 0 old new (c # cs) =
     (if take (length old) (c # cs) = old
      then new @ replace_from (length old - 1) old new cs
      else c # replace_from 0 old new cs)"

definition py_replace :: "string \<Rightarrow> string \<Rightarrow> string \<Rightarrow> string" where
  "py_replace old new s =
     (if old = [] then new @ concat (map (\<lambda>c. c # new) s) else replace_from 0 old new s)"

text \<open>\<open>str(n)\<close> of an integer, as an f-string prints it.\<close>

fun digits :: "nat \<Rightarrow> string" where
  "digits n =
     (if n < 10 then [char_of (48 + n)] else digits (n div 10) @ [char_of (48 + n mod 10)])"

definition py_str_int :: "int \<Rightarrow> string" where
  "py_str_int i = (if i < 0 then ''-'' @ digits (nat (- i)) else digits (nat i))"

definition embed_base :: string where
  "embed_base = ''https://www.google.com/maps/embed/v1/place?key=''"

definition get_embed_url :: "string option \<Rightarrow> string \<Rightarrow> string" where
  "get_embed_url api_key exchange_name =
     (case api_key of
        None \<Rightarrow> []
      | Some k \<Rightarrow>
          if k = [] then []
          else
            (case map_of exchange_locations exchange_name of
               None \<Rightarrow> embed_base @ k @ ''&q='' @ py_replace '' '' ''+'' exchange_name
             | Some loc \<Rightarrow>
                 embed_base @ k @ ''&q='' @ py_replace '' '' ''+'' (query loc) @ ''&zoom=15''))"

definition dq :: string where
  "dq = [CHR 0x22]"

definition nl :: string where
  "nl = [CHR 0x0A]"

definition get_map_html :: "string option \<Rightarrow> string \<Rightarrow> int \<Rightarrow> int \<Rightarrow> string" where
  "get_map_html api_key exchange_name width height =
     (let embed_url = get_embed_url api_key exchange_name
      in if embed_url = [] then ''<p>Google Maps API key not configured</p>''
         else nl @ ''        <iframe'' @ nl
           @ ''            width='' @ dq @ py_str_int width @ dq @ nl
           @ ''            height='' @ dq @ py_str_int height @ dq @ nl
           @ ''            style='' @ dq @ ''border:0'' @ dq @ nl
           @ ''            loading='' @ dq @ ''lazy'' @ dq @ nl
           @ ''            allowfullscreen'' @ nl
           @ ''            referrerpolicy='' @ dq @ ''no-referrer-when-downgrade'' @ dq @ nl
           @ ''            src='' @ dq @ embed_url @ dq @ ''>'' @ nl
           @ ''        </iframe>'' @ nl
           @ ''        '')"

text \<open>
  The dictionaries about a location: the one of an exchange that is not in the table
  (\<open>exchange\<close>, \<open>error\<close>, \<open>map_url\<close>), the one of a known exchange (\<open>exchange\<close>, \<open>address\<close>,
  \<open>coordinates\<close> with latitude and longitude, \<open>map_url\<close>, \<open>map_html\<close>), and \<open>{"error": msg}\<close>,
  which the aggregator stores when the lookup raised.
\<close>

datatype location_dict =
    LocationError string
  | LocationUnknown string string string
  | LocationKnown string string real real string string

definition get_location_info :: "string option \<Rightarrow> string \<Rightarrow> location_dict" where
  "get_location_info api_key exchange_name =
     (case map_of exchange_locations exchange_name of
        None \<Rightarrow>
          LocationUnknown exchange_name ''Location information not available''
            (get_embed_url api_key exchange_name)
      | Some loc \<Rightarrow>
          LocationKnown exchange_name (address loc) (lat loc) (lng loc)
            (get_embed_url api_key exchange_name)
            (get_map_html api_key exchange_name 600 450))"

text \<open>
  The module-level function builds a tool, which reads \<open>GOOGLE_MAPS_API_KEY\<close> from the
  environment, and asks it.
\<close>

definition get_exchange_location :: "string option \<Rightarrow> string \<Rightarrow> location_dict" where
  "get_exchange_location maps_key exchange_name = get_location_info maps_key exchange_name"

section \<open>Tool registry (mcp/server.py)\<close>

text \<open>
  The three module-level tool functions, as the dispatcher and the aggregator call them:
  each takes one string and returns its result or raises. The currency and the market
  tool return text, the location tool a dictionary.
\<close>

record tool_functions =
  currency_info_tool :: "string \<Rightarrow> pyexn + string"
  stock_market_info_tool :: "string \<Rightarrow> pyexn + string"
  exchange_location_tool :: "string \<Rightarrow> pyexn + location_dict"

datatype tool_output =
    TextOutput string
  | LocationOutput location_dict
  | ErrorOutput string

text \<open>\<open>parameters.get(key, "")\<close>\<close>

definition get_or_empty :: "(string \<rightharpoonup> string) \<Rightarrow> string \<Rightarrow> string" where
  "get_or_empty parameters k = (case parameters k of None \<Rightarrow> [] | Some v \<Rightarrow> v)"

definition execute_tool ::
  "tool_functions \<Rightarrow> string \<Rightarrow> (string \<rightharpoonup> string) \<Rightarrow> pyexn + tool_output" where
  "execute_tool tools tool_name parameters =
     (if tool_name = ''get_currency_info'' then
        bind_exn (currency_info_tool tools (get_or_empty parameters ''country_name''))
          (\<lambda>r. Inr (TextOutput r))
      else if tool_name = ''get_stock_market_info'' then
        bind_exn (stock_market_info_tool tools (get_or_empty parameters ''country_name''))
          (\<lambda>r. Inr (TextOutput r))
      else if tool_name = ''get_exchange_location'' then
        bind_exn (exchange_location_tool tools (get_or_empty parameters ''exchange_name''))
          (\<lambda>r. Inr (LocationOutput r))
      else Inr (ErrorOutput (''Unknown tool: '' @ tool_name)))"

section \<open>Aggregator (agent/agent.py)\<close>

text \<open>\<open>needle in s\<close> on strings, and \<open>s.split("\n")\<close>.\<close>

fun py_contains :: "string \<Rightarrow> string \<Rightarrow> bool" where
  "py_contains needle [] = (needle = [])"
| "py_contains needle (c # cs) =
     (take (length needle) (c # cs) = needle \<or> py_contains needle cs)"

fun split_lines :: "string \<Rightarrow> string list" where
  "split_lines [] = [[]]"
| "split_lines (c # cs) =
     (if c = CHR 0x0A then [] # split_lines cs
      else (case split_lines cs of
              l # ls \<Rightarrow> (c # l) # ls
            | [] \<Rightarrow> [[c]]))"

definition phrases :: "string list" where
  "phrases = [''give me'', ''show me'', ''get'', ''details for'', ''information about'',
              ''currency and stock market details for'', ''financial information for'']"

definition extract_country_name :: "string \<Rightarrow> string" where
  "extract_country_name user_input =
     py_title (py_strip (fold (\<lambda>phrase s. py_replace phrase [] s) phrases (py_lower user_input)))"

text \<open>
  An entry of \<open>intermediate_steps\<close>: the tool, its input, and its output or the text of
  the exception. The output of the location step is \<open>str(location_result)\<close>, the printed
  form of the dictionary, which is kept as the dictionary itself.
\<close>

datatype step_output = ShownText string | ShownDict location_dict

datatype step =
    StepOutput string string step_output
  | StepError string string string

record results =
  res_currency_info :: "string option"
  res_stock_info :: "string option"
  res_primary_exchange :: "string option"
  res_location_info :: "location_dict option"

definition shorten :: "string \<Rightarrow> string" where
  "shorten s = (if 200 < length s then take 200 s @ ''...'' else s)"

text \<open>The search for the primary exchange in the text of the market tool.\<close>

definition find_primary_exchange :: "string \<Rightarrow> string option" where
  "find_primary_exchange stock_result =
     (if py_contains ''Primary Exchange:'' stock_result then
        (case find (py_contains ''Primary Exchange:'') (split_lines stock_result) of
           Some line \<Rightarrow> Some (py_strip (py_replace ''**Primary Exchange:**'' [] line))
         | None \<Rightarrow> None)
      else None)"

definition currency_step :: "tool_functions \<Rightarrow> string \<Rightarrow> results \<times> step list \<Rightarrow> results \<times> step list" where
  "currency_step tools country_arg st =
     (case st of (res, steps) \<Rightarrow>
       (case currency_info_tool tools country_arg of
          Inr currency_result \<Rightarrow>
            (res\<lparr>res_currency_info := Some currency_result\<rparr>,
             steps @ [StepOutput ''get_currency_info'' country_arg
                        (ShownText (shorten currency_result))])
        | Inl e \<Rightarrow>
            (res\<lparr>res_currency_info := Some (''Error fetching currency info: '' @ exn_str e)\<rparr>,
             steps @ [StepError ''get_currency_info'' country_arg (exn_str e)])))"

definition stock_step :: "tool_functions \<Rightarrow> string \<Rightarrow> results \<times> step list \<Rightarrow> results \<times> step list" where
  "stock_step tools country_arg st =
     (case st of (res, steps) \<Rightarrow>
       (case stock_market_info_tool tools country_arg of
          Inr stock_result \<Rightarrow>
            ((case find_primary_exchange stock_result of
                Some exchange_name \<Rightarrow>
                  res\<lparr>res_stock_info := Some stock_result,
                      res_primary_exchange := Some exchange_name\<rparr>
              | None \<Rightarrow> res\<lparr>res_stock_info := Some stock_result\<rparr>),
             steps @ [StepOutput ''get_stock_market_info'' country_arg
                        (ShownText (shorten stock_result))])
        | Inl e \<Rightarrow>
            (res\<lparr>res_stock_info := Some (''Error fetching stock info: '' @ exn_str e)\<rparr>,
             steps @ [StepError ''get_stock_market_info'' country_arg (exn_str e)])))"

definition location_step ::
  "tool_functions \<Rightarrow> string option \<Rightarrow> results \<times> step list \<Rightarrow> results \<times> step list" where
  "location_step tools maps_key st =
     (case st of (res, steps) \<Rightarrow>
       (case res_primary_exchange res of
          None \<Rightarrow> (res, steps)
        | Some exchange_name \<Rightarrow>
            if key_configured maps_key then
              (case exchange_location_tool tools exchange_name of
                 Inr location_result \<Rightarrow>
                   (res\<lparr>res_location_info := Some location_result\<rparr>,
                    steps @ [StepOutput ''get_exchange_location'' exchange_name
                               (ShownDict location_result)])
               | Inl e \<Rightarrow>
                   (res\<lparr>res_location_info := Some (LocationError (exn_str e))\<rparr>,
                    steps @ [StepError ''get_exchange_location'' exchange_name (exn_str e)]))
            else (res, steps)))"

definition no_results :: results where
  "no_results = \<lparr>res_currency_info = None, res_stock_info = None,
                  res_primary_exchange = None, res_location_info = None\<rparr>"

definition call_tools :: "tool_functions \<Rightarrow> string option \<Rightarrow> string \<Rightarrow> results \<times> step list" where
  "call_tools tools maps_key country_arg =
     location_step tools maps_key
       (stock_step tools country_arg
          (currency_step tools country_arg (no_results, [])))"

fun location_has_error :: "location_dict \<Rightarrow> bool" where
  "location_has_error (LocationError m) = True"
| "location_has_error (LocationUnknown ex m u) = True"
| "location_has_error (LocationKnown ex a la lo u h) = False"

definition format_location :: "location_dict \<Rightarrow> string" where
  "format_location loc =
     (case loc of
        LocationKnown ex a la lo u h \<Rightarrow>
          ''---'' @ nl @ nl @ ''**Stock Exchange Location:**'' @ nl @ nl
            @ ''Exchange: '' @ ex @ nl @ nl @ ''Address: '' @ a @ nl @ nl
      | LocationUnknown ex m u \<Rightarrow> []
      | LocationError m \<Rightarrow> [])"

definition format_output :: "string \<Rightarrow> results \<Rightarrow> string" where
  "format_output country_arg res =
     ''# Financial Information for '' @ country_arg @ nl @ nl
       @ (case res_currency_info res of Some c \<Rightarrow> c @ nl @ nl | None \<Rightarrow> [])
       @ (case res_stock_info res of Some s \<Rightarrow> s @ nl @ nl | None \<Rightarrow> [])
       @ (case res_location_info res of
            Some loc \<Rightarrow> if location_has_error loc then [] else format_location loc
          | None \<Rightarrow> [])"

text \<open>
  The dictionaries \<open>query\<close> returns: \<open>success\<close> false with \<open>error\<close> and \<open>output\<close>, or \<open>success\<close>
  true with \<open>output\<close> and \<open>intermediate_steps\<close>.
\<close>

datatype query_result =
    QueryFailed string string
  | QueryDone string "step list"

definition query :: "tool_functions \<Rightarrow> string option \<Rightarrow> string \<Rightarrow> query_result" where
  "query tools maps_key user_input =
     (let country_arg = extract_country_name user_input
      in if country_arg = [] then
           QueryFailed ''Could not identify country from query''
             ''Please specify a country name in your query.''
         else
           (case call_tools tools maps_key country_arg of
              (res, steps) \<Rightarrow> QueryDone (format_output country_arg res) steps))"


section \<open>Notions of the specification and sample inputs\<close>

text \<open>The shape of an ISO 4217 code: three upper-case letters of the basic alphabet.\<close>

definition is_ascii_upper :: "char \<Rightarrow> bool" where
  "is_ascii_upper c = (let n = (of_char c :: nat) in 65 \<le> n \<and> n \<le> 90)"

definition iso_4217_shape :: "string \<Rightarrow> bool" where
  "iso_4217_shape c = (length c = 3 \<and> list_all is_ascii_upper c)"

text \<open>A network on which every request fails, and one on which the rate API answers.\<close>

definition offline :: network where
  "offline = \<lparr>respond = (\<lambda>url. Inl (RequestException ''connection refused'')), requested = []\<rparr>"

definition sample_json :: rate_json where
  "sample_json =
     \<lparr>result = Some ''success'', error_type = None,
      conversion_rates = Some [''USD'' \<mapsto> 0.0067, ''EUR'' \<mapsto> 0.0061, ''JPY'' \<mapsto> 1],
      time_last_update_utc = Some ''Mon, 01 Jan 2024 00:00:01 +0000'',
      time_next_update_utc = Some ''Tue, 02 Jan 2024 00:00:01 +0000''\<rparr>"

definition online :: network where
  "online = \<lparr>respond = (\<lambda>url. Inr sample_json), requested = []\<rparr>"


section \<open>Currency lookup: the static table\<close>

text \<open>
  The keys of the table are pairwise distinct, so the list read from the front is the
  dictionary the source writes, and every code has the shape of an ISO 4217 code.
\<close>

lemma currency_keys_distinct: "distinct (map fst country_currency_map)"
  by code_simp

lemma currency_codes_shape: "list_all (\<lambda>(k, e). iso_4217_shape (code e)) country_currency_map"
  by code_simp

lemma currency_lookup:
  "(k, entry) \<in> set country_currency_map \<Longrightarrow> map_of country_currency_map k = Some entry"
  by (simp add: currency_keys_distinct)

lemma currency_entry_shape:
  "(k, entry) \<in> set country_currency_map \<Longrightarrow> iso_4217_shape (code entry)"
  using currency_codes_shape by (auto simp: list_all_iff)

lemma currency_absent:
  "k \<notin> fst ` set country_currency_map \<Longrightarrow> map_of country_currency_map k = None"
  by (simp add: map_of_eq_None_iff)

text \<open>
  C9: \<open>get_country_currency\<close> is a static lookup. For a country name whose lower-cased,
  stripped form is a key of the table it returns the code and the name of that entry (a
  code of the ISO 4217 shape) under the title-cased name; for a name whose form is no
  key it returns the error dictionary; and in both cases the network comes back as it
  was given: no request is made.
\<close>

theorem get_country_currency_static_lookup:
  "((k, entry) \<in> set country_currency_map \<and> py_strip (py_lower country_name) = k \<longrightarrow>
      get_country_currency country_name net =
        (DataDict \<lparr>country = py_title country_name,
                   currency_code = code entry,
                   currency_name = name entry\<rparr>, net)
      \<and> iso_4217_shape (code entry))
   \<and> (py_strip (py_lower country_name) \<notin> fst ` set country_currency_map \<longrightarrow>
      get_country_currency country_name net =
        (ErrorDict (''Currency information not found for country: '' @ country_name), net))
   \<and> requested (snd (get_country_currency country_name net)) = requested net"
proof (intro conjI impI)
  assume h: "(k, entry) \<in> set country_currency_map \<and> py_strip (py_lower country_name) = k"
  then have "map_of country_currency_map (py_strip (py_lower country_name)) = Some entry"
    using currency_lookup by blast
  then show "get_country_currency country_name net =
        (DataDict \<lparr>country = py_title country_name,
                   currency_code = code entry,
                   currency_name = name entry\<rparr>, net)"
    by (simp add: get_country_currency_def)
  from h show "iso_4217_shape (code entry)"
    using currency_entry_shape by blast
next
  assume "py_strip (py_lower country_name) \<notin> fst ` set country_currency_map"
  then have "map_of country_currency_map (py_strip (py_lower country_name)) = None"
    by (rule currency_absent)
  then show "get_country_currency country_name net =
        (ErrorDict (''Currency information not found for country: '' @ country_name), net)"
    by (simp add: get_country_currency_def)
next
  show "requested (snd (get_country_currency country_name net)) = requested net"
    by (simp add: get_country_currency_def split: option.split)
qed

theorem get_country_currency_static_lookup_witness:
  "((''japan'', \<lparr>code = ''JPY'', name = ''Japanese Yen''\<rparr>) \<in> set country_currency_map
      \<and> py_strip (py_lower '' jaPAN  '') = ''japan'')
   \<and> get_country_currency '' jaPAN  '' offline =
        (DataDict \<lparr>country = '' Japan  '', currency_code = ''JPY'',
                   currency_name = ''Japanese Yen''\<rparr>, offline)
   \<and> iso_4217_shape ''JPY''
   \<and> py_strip (py_lower ''Atlantis'') \<notin> fst ` set country_currency_map
   \<and> get_country_currency ''Atlantis'' offline =
        (ErrorDict ''Currency information not found for country: Atlantis'', offline)"
proof -
  have a: "(''japan'', \<lparr>code = ''JPY'', name = ''Japanese Yen''\<rparr>) \<in> set country_currency_map
      \<and> py_strip (py_lower '' jaPAN  '') = ''japan''"
    by code_simp
  have t: "py_title '' jaPAN  '' = '' Japan  ''"
    by code_simp
  have b: "py_strip (py_lower ''Atlantis'') \<notin> fst ` set country_currency_map"
    by code_simp
  from a b t show ?thesis
    using get_country_currency_static_lookup
            [of "''japan''" "\<lparr>code = ''JPY'', name = ''Japanese Yen''\<rparr>" "'' jaPAN  ''" offline]
          get_country_currency_static_lookup [of _ _ "''Atlantis''" offline]
    by simp
qed

section \<open>Exchange rates\<close>

text \<open>The loop that fills \<open>rates\<close>: its keys are the targets, each with its own entry.\<close>

lemma update_fold_keys:
  "fst ` set (fold (\<lambda>t acc. AList.update t (f t) acc) ts acc0) = set ts \<union> fst ` set acc0"
  by (induction ts arbitrary: acc0) (auto simp: AList.dom_update)

lemma update_fold_lookup:
  "map_of (fold (\<lambda>t acc. AList.update t (f t) acc) ts acc0) t =
     (if t \<in> set ts then Some (f t) else map_of acc0 t)"
  by (induction ts arbitrary: acc0) (auto simp: AList.update_conv')

lemma collect_rates_keys: "fst ` set (collect_rates conv ts) = set ts"
  by (simp add: collect_rates_def update_fold_keys)

lemma collect_rates_lookup:
  "t \<in> set ts \<Longrightarrow>
     map_of (collect_rates conv ts) t =
       Some (case conv t of Some r \<Rightarrow> RateNumber r | None \<Rightarrow> RateText ''Not available'')"
  by (simp add: collect_rates_def update_fold_lookup)

lemma get_exchange_rates_success:
  assumes "key_configured (Some k)"
    and "respond net (rate_url k base) = Inr data"
    and "result data = Some ''success''"
  shows "get_exchange_rates (Some k) base ts net =
           (Inr (DataDict
              \<lparr>base_currency = base,
               rates = collect_rates (conversion_rates_or_empty data) ts,
               last_updated = time_last_update_utc data,
               next_update = time_next_update_utc data\<rparr>),
            net\<lparr>requested := requested net @ [rate_url k base]\<rparr>)"
  using assms by (simp add: get_exchange_rates_def requests_get_def)

text \<open>
  C7: when the key is configured and the rate API answers with \<open>result = "success"\<close>,
  \<open>get_exchange_rates\<close> returns a data dictionary whose \<open>rates\<close> have exactly the requested
  targets as keys; a target that is in \<open>conversion_rates\<close> carries its number, and a target
  that is missing there carries the text \<open>Not available\<close>.
\<close>

theorem get_exchange_rates_marks_missing:
  "key_configured (Some k) \<and> respond net (rate_url k base) = Inr data
     \<and> result data = Some ''success'' \<longrightarrow>
   (\<exists>snap net'. get_exchange_rates (Some k) base target_currencies net = (Inr (DataDict snap), net')
      \<and> fst ` set (rates snap) = set target_currencies
      \<and> (\<forall>t \<in> set target_currencies.
            map_of (rates snap) t =
              Some (case conversion_rates_or_empty data t of
                      Some r \<Rightarrow> RateNumber r
                    | None \<Rightarrow> RateText ''Not available'')))"
proof (intro impI)
  assume h: "key_configured (Some k) \<and> respond net (rate_url k base) = Inr data
     \<and> result data = Some ''success''"
  let ?snap = "\<lparr>base_currency = base,
               rates = collect_rates (conversion_rates_or_empty data) target_currencies,
               last_updated = time_last_update_utc data,
               next_update = time_next_update_utc data\<rparr>"
  have "get_exchange_rates (Some k) base target_currencies net =
          (Inr (DataDict ?snap), net\<lparr>requested := requested net @ [rate_url k base]\<rparr>)"
    using h by (intro get_exchange_rates_success) simp_all
  moreover have "fst ` set (rates ?snap) = set target_currencies"
    by (simp add: collect_rates_keys)
  moreover have "\<forall>t \<in> set target_currencies.
            map_of (rates ?snap) t =
              Some (case conversion_rates_or_empty data t of
                      Some r \<Rightarrow> RateNumber r
                    | None \<Rightarrow> RateText ''Not available'')"
    by (simp add: collect_rates_lookup)
  ultimately show "\<exists>snap net'. get_exchange_rates (Some k) base target_currencies net = (Inr (DataDict snap), net')
      \<and> fst ` set (rates snap) = set target_currencies
      \<and> (\<forall>t \<in> set target_currencies.
            map_of (rates snap) t =
              Some (case conversion_rates_or_empty data t of
                      Some r \<Rightarrow> RateNumber r
                    | None \<Rightarrow> RateText ''Not available''))"
    by blast
qed

theorem get_exchange_rates_marks_missing_witness:
  "(key_configured (Some ''KEY'') \<and> respond online (rate_url ''KEY'' ''JPY'') = Inr sample_json
      \<and> result sample_json = Some ''success'')
   \<and> (\<exists>snap net'.
         get_exchange_rates (Some ''KEY'') ''JPY'' [''USD'', ''GBP''] online
           = (Inr (DataDict snap), net')
         \<and> fst ` set (rates snap) = {''USD'', ''GBP''}
         \<and> map_of (rates snap) ''USD'' = Some (RateNumber 0.0067)
         \<and> map_of (rates snap) ''GBP'' = Some (RateText ''Not available''))"
proof -
  have h: "key_configured (Some ''KEY'') \<and> respond online (rate_url ''KEY'' ''JPY'') = Inr sample_json
      \<and> result sample_json = Some ''success''"
    by (simp add: online_def sample_json_def)
  have c: "conversion_rates_or_empty sample_json ''USD'' = Some 0.0067"
          "conversion_rates_or_empty sample_json ''GBP'' = None"
    by (simp_all add: conversion_rates_or_empty_def sample_json_def)
  from get_exchange_rates_marks_missing
         [of "''KEY''" online "''JPY''" sample_json "[''USD'', ''GBP'']"] h
  obtain snap net' where
    s: "get_exchange_rates (Some ''KEY'') ''JPY'' [''USD'', ''GBP''] online
           = (Inr (DataDict snap), net')"
       "fst ` set (rates snap) = set [''USD'', ''GBP'']"
       "\<forall>t \<in> set [''USD'', ''GBP''].
            map_of (rates snap) t =
              Some (case conversion_rates_or_empty sample_json t of
                      Some r \<Rightarrow> RateNumber r
                    | None \<Rightarrow> RateText ''Not available'')"
    by blast
  from s(3) c have "map_of (rates snap) ''USD'' = Some (RateNumber 0.0067)"
    and "map_of (rates snap) ''GBP'' = Some (RateText ''Not available'')"
    by simp_all
  with s(1) s(2) h show ?thesis by auto
qed

section \<open>Rates of a country\<close>

text \<open>
  What \<open>get_all_rates_for_country\<close> does on a name that is in the table, and on one that is
  not: the call of \<open>get_exchange_rates\<close> with its arguments, and what becomes of its result.
\<close>

lemma targets_for_excludes_base: "base \<notin> set (targets_for base)"
  by (auto simp: targets_for_def default_targets_def)

lemma targets_for_subset: "set (targets_for base) \<subseteq> set default_targets"
  by (auto simp: targets_for_def default_targets_def)

lemma get_exchange_rates_keys:
  assumes "get_exchange_rates api_key base ts net = (Inr (DataDict snap), net')"
  shows "fst ` set (rates snap) = set ts"
proof -
  from assms obtain data where "rates snap = collect_rates (conversion_rates_or_empty data) ts"
    by (auto simp: get_exchange_rates_def requests_get_def
             split: option.splits if_splits sum.splits pyexn.splits prod.splits)
  then show ?thesis
    by (simp add: collect_rates_keys)
qed

lemma get_all_rates_found:
  assumes "(k, entry) \<in> set country_currency_map"
    and "py_strip (py_lower country_name) = k"
  shows "get_all_rates_for_country api_key country_name net =
     (case get_exchange_rates api_key (code entry) (targets_for (code entry)) net of
        (Inl e, net') \<Rightarrow> (Inl e, net')
      | (Inr exchange_data, net') \<Rightarrow>
          (Inr (DataDict \<lparr>country = py_title country_name,
                           currency_code = code entry,
                           currency_name = name entry,
                           exchange_rates = exchange_data\<rparr>), net'))"
proof -
  have "map_of country_currency_map (py_strip (py_lower country_name)) = Some entry"
    using assms currency_lookup by blast
  then show ?thesis
    by (simp add: get_all_rates_for_country_def get_country_currency_def
             split: prod.splits sum.splits)
qed

lemma get_all_rates_absent:
  assumes "py_strip (py_lower country_name) \<notin> fst ` set country_currency_map"
  shows "get_all_rates_for_country api_key country_name net =
     (Inr (ErrorDict (''Currency information not found for country: '' @ country_name)), net)"
proof -
  have "map_of country_currency_map (py_strip (py_lower country_name)) = None"
    using assms by (rule currency_absent)
  then show ?thesis
    by (simp add: get_all_rates_for_country_def get_country_currency_def)
qed

text \<open>
  C6: for a country found in the table, the targets handed to \<open>get_exchange_rates\<close> do not
  contain the country's own currency code, the call is made with exactly these targets,
  and a data dictionary that comes back has no rate entry under that code.
\<close>

theorem get_all_rates_no_self_rate:
  "(k, entry) \<in> set country_currency_map \<and> py_strip (py_lower country_name) = k \<longrightarrow>
     code entry \<notin> set (targets_for (code entry))
     \<and> get_all_rates_for_country api_key country_name net =
         (case get_exchange_rates api_key (code entry) (targets_for (code entry)) net of
            (Inl e, net') \<Rightarrow> (Inl e, net')
          | (Inr exchange_data, net') \<Rightarrow>
              (Inr (DataDict \<lparr>country = py_title country_name,
                               currency_code = code entry,
                               currency_name = name entry,
                               exchange_rates = exchange_data\<rparr>), net'))
     \<and> (\<forall>r snap net'.
           get_all_rates_for_country api_key country_name net = (Inr (DataDict r), net')
             \<and> exchange_rates r = DataDict snap
           \<longrightarrow> code entry \<notin> fst ` set (rates snap))"
proof (intro impI conjI allI)
  show "code entry \<notin> set (targets_for (code entry))"
    by (rule targets_for_excludes_base)
next
  assume h: "(k, entry) \<in> set country_currency_map \<and> py_strip (py_lower country_name) = k"
  then show "get_all_rates_for_country api_key country_name net =
         (case get_exchange_rates api_key (code entry) (targets_for (code entry)) net of
            (Inl e, net') \<Rightarrow> (Inl e, net')
          | (Inr exchange_data, net') \<Rightarrow>
              (Inr (DataDict \<lparr>country = py_title country_name,
                               currency_code = code entry,
                               currency_name = name entry,
                               exchange_rates = exchange_data\<rparr>), net'))"
    using get_all_rates_found by blast
next
  fix r snap net'
  assume h: "(k, entry) \<in> set country_currency_map \<and> py_strip (py_lower country_name) = k"
    and g: "get_all_rates_for_country api_key country_name net = (Inr (DataDict r), net')
             \<and> exchange_rates r = DataDict snap"
  from h have eq: "get_all_rates_for_country api_key country_name net =
         (case get_exchange_rates api_key (code entry) (targets_for (code entry)) net of
            (Inl e, net') \<Rightarrow> (Inl e, net')
          | (Inr exchange_data, net') \<Rightarrow>
              (Inr (DataDict \<lparr>country = py_title country_name,
                               currency_code = code entry,
                               currency_name = name entry,
                               exchange_rates = exchange_data\<rparr>), net'))"
    using get_all_rates_found by blast
  from g eq have "get_exchange_rates api_key (code entry) (targets_for (code entry)) net
                    = (Inr (DataDict snap), net')"
    by (auto split: prod.splits sum.splits)
  then have "fst ` set (rates snap) = set (targets_for (code entry))"
    by (rule get_exchange_rates_keys)
  then show "code entry \<notin> fst ` set (rates snap)"
    using targets_for_excludes_base by blast
qed

lemma india_lookup:
  "(''india'', \<lparr>code = ''INR'', name = ''Indian Rupee''\<rparr>) \<in> set country_currency_map
     \<and> py_strip (py_lower ''India'') = ''india''"
  by code_simp

lemma india_title: "py_title ''India'' = ''India''"
  by code_simp

lemma india_targets: "targets_for ''INR'' = [''USD'', ''EUR'', ''GBP'']"
  by (simp add: targets_for_def default_targets_def)

lemma india_rates:
  "get_exchange_rates (Some ''KEY'') ''INR'' [''USD'', ''EUR'', ''GBP''] online =
     (Inr (DataDict
        \<lparr>base_currency = ''INR'',
         rates = [(''USD'', RateNumber 0.0067), (''EUR'', RateNumber 0.0061),
                  (''GBP'', RateText ''Not available'')],
         last_updated = Some ''Mon, 01 Jan 2024 00:00:01 +0000'',
         next_update = Some ''Tue, 02 Jan 2024 00:00:01 +0000''\<rparr>),
      online\<lparr>requested := [''https://v6.exchangerate-api.com/v6/KEY/latest/INR'']\<rparr>)"
  by (simp add: get_exchange_rates_def requests_get_def online_def sample_json_def rate_url_def
        base_url_def collect_rates_def conversion_rates_or_empty_def)

theorem get_all_rates_no_self_rate_witness:
  "((''india'', \<lparr>code = ''INR'', name = ''Indian Rupee''\<rparr>) \<in> set country_currency_map
      \<and> py_strip (py_lower ''India'') = ''india'')
   \<and> ''INR'' \<notin> set (targets_for ''INR'')
   \<and> get_all_rates_for_country (Some ''KEY'') ''India'' online =
       (Inr (DataDict
          \<lparr>country = ''India'', currency_code = ''INR'', currency_name = ''Indian Rupee'',
           exchange_rates = DataDict
             \<lparr>base_currency = ''INR'',
              rates = [(''USD'', RateNumber 0.0067), (''EUR'', RateNumber 0.0061),
                       (''GBP'', RateText ''Not available'')],
              last_updated = Some ''Mon, 01 Jan 2024 00:00:01 +0000'',
              next_update = Some ''Tue, 02 Jan 2024 00:00:01 +0000''\<rparr>\<rparr>),
        online\<lparr>requested := [''https://v6.exchangerate-api.com/v6/KEY/latest/INR'']\<rparr>)"
  using get_all_rates_no_self_rate
          [of "''india''" "\<lparr>code = ''INR'', name = ''Indian Rupee''\<rparr>" "''India''"
              "Some ''KEY''" online]
        india_lookup
  by (simp add: india_title india_targets india_rates)

text \<open>
  C2, as the code has it: for a name that is not in the table the lookup error is the
  result and no request is made. For a name that is in the table the result is a merged
  record (country, currency_code, currency_name, exchange_rates) whose \<open>exchange_rates\<close>
  field holds the dictionary \<open>get_exchange_rates\<close> returned, its error dictionary
  included; only an exception that \<open>get_exchange_rates\<close> lets through leaves the call
  as it is.
\<close>

theorem get_all_rates_merged_or_lookup_error:
  "(py_strip (py_lower country_name) \<notin> fst ` set country_currency_map \<longrightarrow>
      get_all_rates_for_country api_key country_name net =
        (Inr (ErrorDict (''Currency information not found for country: '' @ country_name)),
         net))
   \<and> ((k, entry) \<in> set country_currency_map \<and> py_strip (py_lower country_name) = k \<longrightarrow>
       (\<forall>exchange_data net'.
          get_exchange_rates api_key (code entry) (targets_for (code entry)) net
            = (Inr exchange_data, net') \<longrightarrow>
          get_all_rates_for_country api_key country_name net =
            (Inr (DataDict \<lparr>country = py_title country_name,
                             currency_code = code entry,
                             currency_name = name entry,
                             exchange_rates = exchange_data\<rparr>), net'))
       \<and> (\<forall>e net'.
          get_exchange_rates api_key (code entry) (targets_for (code entry)) net
            = (Inl e, net') \<longrightarrow>
          get_all_rates_for_country api_key country_name net = (Inl e, net')))"
proof (intro conjI impI allI)
  assume "py_strip (py_lower country_name) \<notin> fst ` set country_currency_map"
  then show "get_all_rates_for_country api_key country_name net =
        (Inr (ErrorDict (''Currency information not found for country: '' @ country_name)),
         net)"
    by (rule get_all_rates_absent)
next
  fix exchange_data net'
  assume "(k, entry) \<in> set country_currency_map \<and> py_strip (py_lower country_name) = k"
    and "get_exchange_rates api_key (code entry) (targets_for (code entry)) net
            = (Inr exchange_data, net')"
  then show "get_all_rates_for_country api_key country_name net =
            (Inr (DataDict \<lparr>country = py_title country_name,
                             currency_code = code entry,
                             currency_name = name entry,
                             exchange_rates = exchange_data\<rparr>), net')"
    using get_all_rates_found [of k entry country_name api_key net] by simp
next
  fix e net'
  assume "(k, entry) \<in> set country_currency_map \<and> py_strip (py_lower country_name) = k"
    and "get_exchange_rates api_key (code entry) (targets_for (code entry)) net
            = (Inl e, net')"
  then show "get_all_rates_for_country api_key country_name net = (Inl e, net')"
    using get_all_rates_found [of k entry country_name api_key net] by simp
qed

lemma japan_lookup:
  "(''japan'', \<lparr>code = ''JPY'', name = ''Japanese Yen''\<rparr>) \<in> set country_currency_map
     \<and> py_strip (py_lower ''Japan'') = ''japan''"
  by code_simp

lemma japan_title: "py_title ''Japan'' = ''Japan''"
  by code_simp

lemma atlantis_absent: "py_strip (py_lower ''Atlantis'') \<notin> fst ` set country_currency_map"
  by code_simp

lemma japan_targets: "targets_for ''JPY'' = [''USD'', ''EUR'', ''GBP'', ''INR'']"
  by (simp add: targets_for_def default_targets_def)

lemma japan_rates_offline:
  "get_exchange_rates (Some ''KEY'') ''JPY'' [''USD'', ''EUR'', ''GBP'', ''INR''] offline =
     (Inr (ErrorDict ''Failed to fetch exchange rates: connection refused''),
      offline\<lparr>requested := [''https://v6.exchangerate-api.com/v6/KEY/latest/JPY'']\<rparr>)"
  by (simp add: get_exchange_rates_def requests_get_def offline_def rate_url_def base_url_def)

theorem get_all_rates_merged_or_lookup_error_witness:
  "py_strip (py_lower ''Atlantis'') \<notin> fst ` set country_currency_map
   \<and> get_all_rates_for_country (Some ''KEY'') ''Atlantis'' offline =
       (Inr (ErrorDict ''Currency information not found for country: Atlantis''), offline)
   \<and> ((''japan'', \<lparr>code = ''JPY'', name = ''Japanese Yen''\<rparr>) \<in> set country_currency_map
        \<and> py_strip (py_lower ''Japan'') = ''japan'')
   \<and> get_exchange_rates (Some ''KEY'') ''JPY'' (targets_for ''JPY'') offline =
       (Inr (ErrorDict ''Failed to fetch exchange rates: connection refused''),
        offline\<lparr>requested := [''https://v6.exchangerate-api.com/v6/KEY/latest/JPY'']\<rparr>)
   \<and> get_all_rates_for_country (Some ''KEY'') ''Japan'' offline =
       (Inr (DataDict
          \<lparr>country = ''Japan'', currency_code = ''JPY'', currency_name = ''Japanese Yen'',
           exchange_rates =
             ErrorDict ''Failed to fetch exchange rates: connection refused''\<rparr>),
        offline\<lparr>requested := [''https://v6.exchangerate-api.com/v6/KEY/latest/JPY'']\<rparr>)"
  using get_all_rates_merged_or_lookup_error
          [of "''Atlantis''" "Some ''KEY''" offline]
        get_all_rates_merged_or_lookup_error
          [of "''Japan''" "Some ''KEY''" offline "''japan''"
              "\<lparr>code = ''JPY'', name = ''Japanese Yen''\<rparr>"]
        japan_lookup atlantis_absent
  by (simp add: japan_title japan_targets japan_rates_offline)

text \<open>
  The claim as it was stated fails: with the key configured and the rate API out of reach,
  \<open>get_exchange_rates\<close> returns its error dictionary, and the call for Japan returns a
  record of the success shape that holds this error under \<open>exchange_rates\<close>; the result has
  no \<open>error\<close> key of its own.
\<close>

theorem get_all_rates_embeds_rate_error:
  "get_exchange_rates (Some ''KEY'') ''JPY'' [''USD'', ''EUR'', ''GBP'', ''INR''] offline =
     (Inr (ErrorDict ''Failed to fetch exchange rates: connection refused''),
      offline\<lparr>requested := [''https://v6.exchangerate-api.com/v6/KEY/latest/JPY'']\<rparr>)
   \<and> get_all_rates_for_country (Some ''KEY'') ''Japan'' offline =
       (Inr (DataDict
          \<lparr>country = ''Japan'', currency_code = ''JPY'', currency_name = ''Japanese Yen'',
           exchange_rates =
             ErrorDict ''Failed to fetch exchange rates: connection refused''\<rparr>),
        offline\<lparr>requested := [''https://v6.exchangerate-api.com/v6/KEY/latest/JPY'']\<rparr>)
   \<and> get_all_rates_for_country (Some ''KEY'') ''Japan'' offline \<noteq>
       (Inr (ErrorDict ''Failed to fetch exchange rates: connection refused''),
        offline\<lparr>requested := [''https://v6.exchangerate-api.com/v6/KEY/latest/JPY'']\<rparr>)"
  using get_all_rates_found
          [of "''japan''" "\<lparr>code = ''JPY'', name = ''Japanese Yen''\<rparr>" "''Japan''"
              "Some ''KEY''" offline]
        japan_lookup
  by (simp add: japan_title japan_targets japan_rates_offline)

section \<open>Index values\<close>

lemma round2_zero: "round2 0 = 0"
  by (simp add: round2_def)

lemma stock_keys_distinct: "distinct (map fst stock_exchanges)"
  by code_simp

lemma stock_index_names_distinct:
  "list_all (\<lambda>(k, ex). distinct (map fst (indices ex))) stock_exchanges"
  by code_simp

lemma stock_lookup:
  "(k, ex) \<in> set stock_exchanges \<Longrightarrow> map_of stock_exchanges k = Some ex"
  by (simp add: stock_keys_distinct)

lemma stock_entry_distinct:
  "(k, ex) \<in> set stock_exchanges \<Longrightarrow> distinct (map fst (indices ex))"
  using stock_index_names_distinct by (auto simp: list_all_iff)

text \<open>Storing under a key that the dictionary does not have puts the entry at its end.\<close>

lemma update_fresh: "k \<notin> fst ` set al \<Longrightarrow> AList.update k v al = al @ [(k, v)]"
  by (induction al) auto

lemma update_fold_distinct:
  "distinct (map fst xs) \<Longrightarrow> fst ` set xs \<inter> fst ` set acc = {} \<Longrightarrow>
     fold (\<lambda>(n, s) acc. AList.update n (g s) acc) xs acc
       = acc @ map (\<lambda>(n, s). (n, g s)) xs"
proof (induction xs arbitrary: acc)
  case Nil
  then show ?case by simp
next
  case (Cons x xs)
  obtain n s where x: "x = (n, s)" by (cases x)
  from Cons.prems x have fresh: "n \<notin> fst ` set acc" by auto
  from Cons.prems x have d: "distinct (map fst xs)" and nx: "n \<notin> fst ` set xs" by auto
  from Cons.prems x nx have "fst ` set xs \<inter> fst ` set (acc @ [(n, g s)]) = {}" by auto
  with Cons.IH [of "acc @ [(n, g s)]"] d
  have "fold (\<lambda>(n, s) acc. AList.update n (g s) acc) xs (acc @ [(n, g s)])
          = (acc @ [(n, g s)]) @ map (\<lambda>(n, s). (n, g s)) xs"
    by blast
  with x fresh show ?case by (simp add: update_fresh)
qed

lemma get_index_values_found:
  assumes "(k, ex) \<in> set stock_exchanges" and "py_strip (py_lower country_name) = k"
  shows "get_index_values yf country_name =
     DataDict \<lparr>index_country = py_title country_name,
               index_data = map (\<lambda>(index_name, ticker_symbol).
                                   (index_name, index_entry_for ticker_symbol (yf ticker_symbol)))
                                (indices ex)\<rparr>"
proof -
  have l: "map_of stock_exchanges (py_strip (py_lower country_name)) = Some ex"
    using assms stock_lookup by blast
  have "distinct (map fst (indices ex))"
    using assms(1) by (rule stock_entry_distinct)
  then have "fold (\<lambda>(n, s) acc. AList.update n (index_entry_for s (yf s)) acc) (indices ex) []
          = [] @ map (\<lambda>(n, s). (n, index_entry_for s (yf s))) (indices ex)"
    by (intro update_fold_distinct) simp_all
  with l show ?thesis
    by (simp add: get_index_values_def)
qed

lemma index_entry_raised:
  "index_entry_for ticker (Inl e) = IndexFailure ticker (''Failed to fetch data: '' @ exn_str e)"
  by (simp add: index_entry_for_def)

lemma index_entry_empty:
  "hist td = [] \<Longrightarrow> index_entry_for ticker (Inr td) = IndexFailure ticker ''No data available''"
  by (simp add: index_entry_for_def index_body_def)

lemma index_entry_number:
  assumes "hist td \<noteq> []" and "previous_close_of td = PyNum p"
  shows "index_entry_for ticker (Inr td) =
     IndexQuote \<lparr>symbol = ticker,
                 current_value = round2 (current_price_of td),
                 previous_close = round2 p,
                 change = round2 (current_price_of td - p),
                 change_percent =
                   round2 (if p = 0 then 0 else (current_price_of td - p) / p * 100),
                 quote_last_updated = stamp (last (hist td))\<rparr>"
  using assms
  by (simp add: index_entry_for_def index_body_def change_percent_of_def Let_def)

lemma index_entry_null:
  assumes "hist td \<noteq> []" and "previous_close_of td = PyNone"
  shows "\<exists>m. index_entry_for ticker (Inr td) = IndexFailure ticker (''Failed to fetch data: '' @ m)"
  using assms
  by (simp add: index_entry_for_def index_body_def Let_def)

lemma index_body_no_zero_division: "index_body ticker td \<noteq> Inl (ZeroDivisionError m)"
proof (cases "previous_close_of td")
  case PyNone
  then show ?thesis
    by (simp add: index_body_def Let_def)
next
  case (PyNum p)
  then show ?thesis
    by (simp add: index_body_def change_percent_of_def Let_def)
qed

text \<open>
  C4: for a country of the exchange table \<open>get_index_values\<close> returns a data dictionary
  with one entry for every index of the country, in the order of the table, and the
  entry of an index is computed from the provider's answer for the ticker of that index
  alone. A fetch that raises gives that index the error entry with the text of the
  exception, an empty history gives it the error entry \<open>No data available\<close>, and a history
  with a numeric previous close gives it a quote, whatever the other fetches did.
\<close>

theorem get_index_values_per_index:
  "(k, ex) \<in> set stock_exchanges \<and> py_strip (py_lower country_name) = k \<longrightarrow>
     get_index_values yf country_name =
       DataDict \<lparr>index_country = py_title country_name,
                 index_data = map (\<lambda>(index_name, ticker_symbol).
                                     (index_name, index_entry_for ticker_symbol (yf ticker_symbol)))
                                  (indices ex)\<rparr>
     \<and> (\<forall>ticker e. index_entry_for ticker (Inl e)
           = IndexFailure ticker (''Failed to fetch data: '' @ exn_str e))
     \<and> (\<forall>ticker td. hist td = [] \<longrightarrow>
           index_entry_for ticker (Inr td) = IndexFailure ticker ''No data available'')
     \<and> (\<forall>ticker td p. hist td \<noteq> [] \<and> previous_close_of td = PyNum p \<longrightarrow>
           (\<exists>q. index_entry_for ticker (Inr td) = IndexQuote q))"
proof (intro impI conjI allI)
  assume "(k, ex) \<in> set stock_exchanges \<and> py_strip (py_lower country_name) = k"
  then show "get_index_values yf country_name =
       DataDict \<lparr>index_country = py_title country_name,
                 index_data = map (\<lambda>(index_name, ticker_symbol).
                                     (index_name, index_entry_for ticker_symbol (yf ticker_symbol)))
                                  (indices ex)\<rparr>"
    using get_index_values_found by blast
next
  fix ticker e
  show "index_entry_for ticker (Inl e)
           = IndexFailure ticker (''Failed to fetch data: '' @ exn_str e)"
    by (rule index_entry_raised)
next
  fix ticker :: string and td :: ticker_data
  assume "hist td = []"
  then show "index_entry_for ticker (Inr td) = IndexFailure ticker ''No data available''"
    by (rule index_entry_empty)
next
  fix ticker :: string and td :: ticker_data and p :: real
  assume "hist td \<noteq> [] \<and> previous_close_of td = PyNum p"
  then show "\<exists>q. index_entry_for ticker (Inr td) = IndexQuote q"
    using index_entry_number [of td p ticker] by blast
qed

lemma uk_lookup:
  "(''uk'', \<lparr>exchanges = [''London Stock Exchange (LSE)''],
             indices = [(''FTSE 100'', ''^FTSE''), (''FTSE 250'', ''^FTMC'')],
             primary_exchange = ''London Stock Exchange'',
             hq_location = ''London, United Kingdom''\<rparr>) \<in> set stock_exchanges
   \<and> py_strip (py_lower ''UK'') = ''uk''"
  by code_simp

lemma uk_title: "py_title ''UK'' = ''Uk''"
  by code_simp

lemma ftmc_quote:
  "index_entry_for ''^FTMC''
     (Inr \<lparr>info_previousClose = Some (PyNum 20000),
           hist = [\<lparr>stamp = ''2024-01-04 00:00:00'', close = 19900\<rparr>,
                   \<lparr>stamp = ''2024-01-05 00:00:00'', close = 20100\<rparr>]\<rparr>)
   = IndexQuote \<lparr>symbol = ''^FTMC'', current_value = 20100, previous_close = 20000,
                 change = 100, change_percent = 0.5,
                 quote_last_updated = ''2024-01-05 00:00:00''\<rparr>"
  by (simp add: index_entry_for_def index_body_def change_percent_of_def Let_def
        current_price_of_def previous_close_of_def round2_def)

theorem get_index_values_per_index_witness:
  "((''uk'', \<lparr>exchanges = [''London Stock Exchange (LSE)''],
             indices = [(''FTSE 100'', ''^FTSE''), (''FTSE 250'', ''^FTMC'')],
             primary_exchange = ''London Stock Exchange'',
             hq_location = ''London, United Kingdom''\<rparr>) \<in> set stock_exchanges
      \<and> py_strip (py_lower ''UK'') = ''uk'')
   \<and> get_index_values
        (\<lambda>ticker_symbol.
           if ticker_symbol = ''^FTSE'' then Inl (OtherException ''timed out'')
           else Inr \<lparr>info_previousClose = Some (PyNum 20000),
                     hist = [\<lparr>stamp = ''2024-01-04 00:00:00'', close = 19900\<rparr>,
                             \<lparr>stamp = ''2024-01-05 00:00:00'', close = 20100\<rparr>]\<rparr>)
        ''UK''
      = DataDict
          \<lparr>index_country = ''Uk'',
           index_data =
             [(''FTSE 100'', IndexFailure ''^FTSE'' ''Failed to fetch data: timed out''),
              (''FTSE 250'',
               IndexQuote \<lparr>symbol = ''^FTMC'', current_value = 20100, previous_close = 20000,
                           change = 100, change_percent = 0.5,
                           quote_last_updated = ''2024-01-05 00:00:00''\<rparr>)]\<rparr>"
  using get_index_values_per_index
          [of "''uk''"
              "\<lparr>exchanges = [''London Stock Exchange (LSE)''],
                indices = [(''FTSE 100'', ''^FTSE''), (''FTSE 250'', ''^FTMC'')],
                primary_exchange = ''London Stock Exchange'',
                hq_location = ''London, United Kingdom''\<rparr>"
              "''UK''"
              "\<lambda>ticker_symbol.
                 if ticker_symbol = ''^FTSE'' then Inl (OtherException ''timed out'')
                 else Inr \<lparr>info_previousClose = Some (PyNum 20000),
                     hist = [\<lparr>stamp = ''2024-01-04 00:00:00'', close = 19900\<rparr>,
                             \<lparr>stamp = ''2024-01-05 00:00:00'', close = 20100\<rparr>]\<rparr>"]
        uk_lookup
  by (simp add: uk_title ftmc_quote index_entry_raised)

lemma single_bar_prices:
  "hist td = [b] \<Longrightarrow> current_price_of td = close b \<and> stamp (last (hist td)) = stamp b"
  by (simp add: current_price_of_def)

lemma map_of_mapped:
  "distinct (map fst xs) \<Longrightarrow> (n, s) \<in> set xs \<Longrightarrow>
     map_of (map (\<lambda>(n, s). (n, g s)) xs) n = Some (g s)"
  by (induction xs) (auto simp: rev_image_eqI)

text \<open>
  C1, as the code has it: when the history of a ticker has exactly one row, the previous
  close is the value of the metadata if the metadata has a number under \<open>previousClose\<close>,
  and the sole close only if the metadata has no such key. In the second case the entry
  reports the sole close as current value and as previous close, and change and
  percentage are 0.
\<close>

theorem single_bar_quote:
  "(k, ex) \<in> set stock_exchanges \<and> py_strip (py_lower country_name) = k
     \<and> (index_name, ticker) \<in> set (indices ex) \<and> yf ticker = Inr td \<and> hist td = [b] \<longrightarrow>
   (\<exists>d. get_index_values yf country_name = DataDict d
      \<and> (info_previousClose td = None \<longrightarrow>
           map_of (index_data d) index_name =
             Some (IndexQuote \<lparr>symbol = ticker,
                                current_value = round2 (close b),
                                previous_close = round2 (close b),
                                change = 0,
                                change_percent = 0,
                                quote_last_updated = stamp b\<rparr>))
      \<and> (\<forall>p. info_previousClose td = Some (PyNum p) \<longrightarrow>
           map_of (index_data d) index_name =
             Some (IndexQuote \<lparr>symbol = ticker,
                                current_value = round2 (close b),
                                previous_close = round2 p,
                                change = round2 (close b - p),
                                change_percent =
                                  round2 (if p = 0 then 0 else (close b - p) / p * 100),
                                quote_last_updated = stamp b\<rparr>)))"
proof (intro impI)
  assume h: "(k, ex) \<in> set stock_exchanges \<and> py_strip (py_lower country_name) = k
     \<and> (index_name, ticker) \<in> set (indices ex) \<and> yf ticker = Inr td \<and> hist td = [b]"
  let ?f = "\<lambda>(index_name, ticker_symbol).
               (index_name, index_entry_for ticker_symbol (yf ticker_symbol))"
  let ?d = "\<lparr>index_country = py_title country_name, index_data = map ?f (indices ex)\<rparr>"
  from h have g: "get_index_values yf country_name = DataDict ?d"
    using get_index_values_found by blast
  from h have dist: "distinct (map fst (indices ex))"
    using stock_entry_distinct by blast
  from dist h have "map_of (map ?f (indices ex)) index_name
                          = Some (index_entry_for ticker (yf ticker))"
    using map_of_mapped [of "indices ex" index_name ticker "\<lambda>s. index_entry_for s (yf s)"]
    by simp
  with h have m: "map_of (index_data ?d) index_name = Some (index_entry_for ticker (Inr td))"
    by simp
  from h have ne: "hist td \<noteq> []" by simp
  from h have pr: "current_price_of td = close b" "stamp (last (hist td)) = stamp b"
    using single_bar_prices by blast+
  have a: "info_previousClose td = None \<longrightarrow>
           map_of (index_data ?d) index_name =
             Some (IndexQuote \<lparr>symbol = ticker,
                                current_value = round2 (close b),
                                previous_close = round2 (close b),
                                change = 0,
                                change_percent = 0,
                                quote_last_updated = stamp b\<rparr>)"
  proof
    assume "info_previousClose td = None"
    with h pr have "previous_close_of td = PyNum (close b)"
      by (simp add: previous_close_of_def)
    from index_entry_number [OF ne this, of ticker] pr m show
      "map_of (index_data ?d) index_name =
             Some (IndexQuote \<lparr>symbol = ticker,
                                current_value = round2 (close b),
                                previous_close = round2 (close b),
                                change = 0,
                                change_percent = 0,
                                quote_last_updated = stamp b\<rparr>)"
      by (simp add: round2_zero)
  qed
  have c: "\<forall>p. info_previousClose td = Some (PyNum p) \<longrightarrow>
           map_of (index_data ?d) index_name =
             Some (IndexQuote \<lparr>symbol = ticker,
                                current_value = round2 (close b),
                                previous_close = round2 p,
                                change = round2 (close b - p),
                                change_percent =
                                  round2 (if p = 0 then 0 else (close b - p) / p * 100),
                                quote_last_updated = stamp b\<rparr>)"
  proof (intro allI impI)
    fix p
    assume "info_previousClose td = Some (PyNum p)"
    then have "previous_close_of td = PyNum p"
      by (simp add: previous_close_of_def)
    from index_entry_number [OF ne this, of ticker] pr m show
      "map_of (index_data ?d) index_name =
             Some (IndexQuote \<lparr>symbol = ticker,
                                current_value = round2 (close b),
                                previous_close = round2 p,
                                change = round2 (close b - p),
                                change_percent =
                                  round2 (if p = 0 then 0 else (close b - p) / p * 100),
                                quote_last_updated = stamp b\<rparr>)"
      by simp
  qed
  show "\<exists>d. get_index_values yf country_name = DataDict d
      \<and> (info_previousClose td = None \<longrightarrow>
           map_of (index_data d) index_name =
             Some (IndexQuote \<lparr>symbol = ticker,
                                current_value = round2 (close b),
                                previous_close = round2 (close b),
                                change = 0,
                                change_percent = 0,
                                quote_last_updated = stamp b\<rparr>))
      \<and> (\<forall>p. info_previousClose td = Some (PyNum p) \<longrightarrow>
           map_of (index_data d) index_name =
             Some (IndexQuote \<lparr>symbol = ticker,
                                current_value = round2 (close b),
                                previous_close = round2 p,
                                change = round2 (close b - p),
                                change_percent =
                                  round2 (if p = 0 then 0 else (close b - p) / p * 100),
                                quote_last_updated = stamp b\<rparr>))"
  proof (intro exI conjI)
    show "get_index_values yf country_name = DataDict ?d" by (rule g)
    show "info_previousClose td = None \<longrightarrow>
           map_of (index_data ?d) index_name =
             Some (IndexQuote \<lparr>symbol = ticker,
                                current_value = round2 (close b),
                                previous_close = round2 (close b),
                                change = 0,
                                change_percent = 0,
                                quote_last_updated = stamp b\<rparr>)" by (rule a)
    show "\<forall>p. info_previousClose td = Some (PyNum p) \<longrightarrow>
           map_of (index_data ?d) index_name =
             Some (IndexQuote \<lparr>symbol = ticker,
                                current_value = round2 (close b),
                                previous_close = round2 p,
                                change = round2 (close b - p),
                                change_percent =
                                  round2 (if p = 0 then 0 else (close b - p) / p * 100),
                                quote_last_updated = stamp b\<rparr>)" by (rule c)
  qed
qed

lemma singapore_lookup:
  "(''singapore'', \<lparr>exchanges = [''Singapore Exchange (SGX)''],
                    indices = [(''Straits Times Index'', ''^STI'')],
                    primary_exchange = ''Singapore Exchange'',
                    hq_location = ''Singapore''\<rparr>) \<in> set stock_exchanges
   \<and> py_strip (py_lower ''Singapore'') = ''singapore''"
  by code_simp

lemma singapore_title: "py_title ''Singapore'' = ''Singapore''"
  by code_simp

lemma singapore_values:
  "get_index_values yf ''Singapore'' =
     DataDict \<lparr>index_country = ''Singapore'',
               index_data = [(''Straits Times Index'', index_entry_for ''^STI'' (yf ''^STI''))]\<rparr>"
  using get_index_values_found
          [of "''singapore''"
              "\<lparr>exchanges = [''Singapore Exchange (SGX)''],
                indices = [(''Straits Times Index'', ''^STI'')],
                primary_exchange = ''Singapore Exchange'',
                hq_location = ''Singapore''\<rparr>"
              "''Singapore''" yf]
        singapore_lookup
  by (simp add: singapore_title)

theorem single_bar_quote_witness:
  "((''singapore'', \<lparr>exchanges = [''Singapore Exchange (SGX)''],
                    indices = [(''Straits Times Index'', ''^STI'')],
                    primary_exchange = ''Singapore Exchange'',
                    hq_location = ''Singapore''\<rparr>) \<in> set stock_exchanges
      \<and> py_strip (py_lower ''Singapore'') = ''singapore'')
   \<and> (\<exists>d. get_index_values
              (\<lambda>ticker_symbol.
                 Inr \<lparr>info_previousClose = None,
                       hist = [\<lparr>stamp = ''2024-01-05 00:00:00'', close = 105\<rparr>]\<rparr>)
              ''Singapore'' = DataDict d
          \<and> map_of (index_data d) ''Straits Times Index'' =
              Some (IndexQuote \<lparr>symbol = ''^STI'',
                                 current_value = 105,
                                 previous_close = 105,
                                 change = 0,
                                 change_percent = 0,
                                 quote_last_updated = ''2024-01-05 00:00:00''\<rparr>))
   \<and> (\<exists>d. get_index_values
              (\<lambda>ticker_symbol.
                 Inr \<lparr>info_previousClose = Some (PyNum 100),
                       hist = [\<lparr>stamp = ''2024-01-05 00:00:00'', close = 105\<rparr>]\<rparr>)
              ''Singapore'' = DataDict d
          \<and> map_of (index_data d) ''Straits Times Index'' =
              Some (IndexQuote \<lparr>symbol = ''^STI'',
                                 current_value = 105,
                                 previous_close = 100,
                                 change = 5,
                                 change_percent = 5,
                                 quote_last_updated = ''2024-01-05 00:00:00''\<rparr>))"
proof -
  show ?thesis
    using single_bar_quote
            [of "''singapore''"
                "\<lparr>exchanges = [''Singapore Exchange (SGX)''],
                  indices = [(''Straits Times Index'', ''^STI'')],
                  primary_exchange = ''Singapore Exchange'',
                  hq_location = ''Singapore''\<rparr>"
                "''Singapore''" "''Straits Times Index''" "''^STI''"
                "\<lambda>ticker_symbol.
                   Inr \<lparr>info_previousClose = None,
                         hist = [\<lparr>stamp = ''2024-01-05 00:00:00'', close = 105\<rparr>]\<rparr>"
                "\<lparr>info_previousClose = None,
                  hist = [\<lparr>stamp = ''2024-01-05 00:00:00'', close = 105\<rparr>]\<rparr>"
                "\<lparr>stamp = ''2024-01-05 00:00:00'', close = 105\<rparr>"]
          single_bar_quote
            [of "''singapore''"
                "\<lparr>exchanges = [''Singapore Exchange (SGX)''],
                  indices = [(''Straits Times Index'', ''^STI'')],
                  primary_exchange = ''Singapore Exchange'',
                  hq_location = ''Singapore''\<rparr>"
                "''Singapore''" "''Straits Times Index''" "''^STI''"
                "\<lambda>ticker_symbol.
                   Inr \<lparr>info_previousClose = Some (PyNum 100),
                         hist = [\<lparr>stamp = ''2024-01-05 00:00:00'', close = 105\<rparr>]\<rparr>"
                "\<lparr>info_previousClose = Some (PyNum 100),
                  hist = [\<lparr>stamp = ''2024-01-05 00:00:00'', close = 105\<rparr>]\<rparr>"
                "\<lparr>stamp = ''2024-01-05 00:00:00'', close = 105\<rparr>"]
          singapore_lookup
    by (simp add: round2_def)
qed

text \<open>
  The claim as it was stated fails: the history of the ticker has the single close 105,
  the metadata carries \<open>previousClose\<close> = 100, and the entry reports the previous close
  100, not the sole close, and the change 5, not 0.
\<close>

theorem single_bar_metadata_wins:
  "get_index_values
     (\<lambda>ticker_symbol.
        Inr \<lparr>info_previousClose = Some (PyNum 100),
              hist = [\<lparr>stamp = ''2024-01-05 00:00:00'', close = 105\<rparr>]\<rparr>)
     ''Singapore''
   = DataDict
       \<lparr>index_country = ''Singapore'',
        index_data =
          [(''Straits Times Index'',
            IndexQuote \<lparr>symbol = ''^STI'', current_value = 105, previous_close = 100,
                        change = 5, change_percent = 5,
                        quote_last_updated = ''2024-01-05 00:00:00''\<rparr>)]\<rparr>"
  by (simp add: singapore_values index_entry_for_def index_body_def change_percent_of_def
        Let_def current_price_of_def previous_close_of_def round2_def)

text \<open>
  C3, as the code has it: the body of the \<open>try\<close> never raises a division by zero,
  whatever was fetched, because the division stands behind the test of the previous
  close; a previous close that is not truthy gives the percentage 0 without a division;
  and when the previous close is the number 0 the entry is a quote whose
  \<open>change_percent\<close> is 0.
\<close>

theorem zero_previous_close_guarded:
  "index_body ticker td \<noteq> Inl (ZeroDivisionError m)
   \<and> (\<not> truthy prev \<longrightarrow> change_percent_of chg prev = Inr 0)
   \<and> (hist td \<noteq> [] \<and> previous_close_of td = PyNum 0 \<longrightarrow>
        index_entry_for ticker (Inr td) =
          IndexQuote \<lparr>symbol = ticker,
                      current_value = round2 (current_price_of td),
                      previous_close = 0,
                      change = round2 (current_price_of td),
                      change_percent = 0,
                      quote_last_updated = stamp (last (hist td))\<rparr>)"
proof (intro conjI impI)
  show "index_body ticker td \<noteq> Inl (ZeroDivisionError m)"
    by (rule index_body_no_zero_division)
next
  assume "\<not> truthy prev"
  then show "change_percent_of chg prev = Inr 0"
    by (simp add: change_percent_of_def)
next
  assume "hist td \<noteq> [] \<and> previous_close_of td = PyNum 0"
  then show "index_entry_for ticker (Inr td) =
          IndexQuote \<lparr>symbol = ticker,
                      current_value = round2 (current_price_of td),
                      previous_close = 0,
                      change = round2 (current_price_of td),
                      change_percent = 0,
                      quote_last_updated = stamp (last (hist td))\<rparr>"
    using index_entry_number [of td 0 ticker] by (simp add: round2_zero)
qed

theorem zero_previous_close_guarded_witness:
  "\<not> truthy (PyNum 0)
   \<and> change_percent_of 105 (PyNum 0) = Inr 0
   \<and> (hist \<lparr>info_previousClose = Some (PyNum 0),
              hist = [\<lparr>stamp = ''2024-01-05 00:00:00'', close = 105\<rparr>]\<rparr> \<noteq> []
        \<and> previous_close_of
             \<lparr>info_previousClose = Some (PyNum 0),
              hist = [\<lparr>stamp = ''2024-01-05 00:00:00'', close = 105\<rparr>]\<rparr> = PyNum 0)
   \<and> index_entry_for ''^STI''
        (Inr \<lparr>info_previousClose = Some (PyNum 0),
              hist = [\<lparr>stamp = ''2024-01-05 00:00:00'', close = 105\<rparr>]\<rparr>)
      = IndexQuote \<lparr>symbol = ''^STI'', current_value = 105, previous_close = 0,
                    change = 105, change_percent = 0,
                    quote_last_updated = ''2024-01-05 00:00:00''\<rparr>"
  using zero_previous_close_guarded
          [of "''^STI''"
              "\<lparr>info_previousClose = Some (PyNum 0),
                hist = [\<lparr>stamp = ''2024-01-05 00:00:00'', close = 105\<rparr>]\<rparr>"
              "''float division by zero''" "PyNum 0" 105]
  by (simp add: previous_close_of_def current_price_of_def round2_def)

text \<open>
  The claim as it was stated fails for a previous close that is absent as a value: the
  metadata carries \<open>previousClose\<close> = null, which is not truthy, and the subtraction
  before the test raises; the index gets the error entry of the handler, not a quote
  with \<open>change_percent\<close> = 0.
\<close>

theorem null_previous_close_fails:
  "previous_close_of
     \<lparr>info_previousClose = Some PyNone,
      hist = [\<lparr>stamp = ''2024-01-05 00:00:00'', close = 105\<rparr>]\<rparr> = PyNone
   \<and> \<not> truthy PyNone
   \<and> get_index_values
        (\<lambda>ticker_symbol.
           Inr \<lparr>info_previousClose = Some PyNone,
                 hist = [\<lparr>stamp = ''2024-01-05 00:00:00'', close = 105\<rparr>]\<rparr>)
        ''Singapore''
      = DataDict
          \<lparr>index_country = ''Singapore'',
           index_data =
             [(''Straits Times Index'',
               IndexFailure ''^STI''
                 (''Failed to fetch data: '' @ none_operand_message ''-''))]\<rparr>"
  by (simp add: singapore_values index_entry_for_def index_body_def Let_def
        current_price_of_def previous_close_of_def)

section \<open>Location lookup without a key\<close>

text \<open>
  C8: when no maps key is configured (the environment variable is unset or empty),
  \<open>get_embed_url\<close> returns the empty string and \<open>get_map_html\<close> the placeholder notice,
  for every exchange name and every width and height. Both are total functions to
  strings: there is no exception among their results.
\<close>

theorem no_maps_key_degrades:
  "\<not> key_configured api_key \<longrightarrow>
     get_embed_url api_key exchange_name = []
     \<and> get_map_html api_key exchange_name width height
         = ''<p>Google Maps API key not configured</p>''"
proof
  assume h: "\<not> key_configured api_key"
  have u: "get_embed_url api_key exchange_name = []"
  proof (cases api_key)
    case None
    then show ?thesis by (simp add: get_embed_url_def)
  next
    case (Some k)
    with h have "k = []" by simp
    with Some show ?thesis by (simp add: get_embed_url_def)
  qed
  then have "get_map_html api_key exchange_name width height
         = ''<p>Google Maps API key not configured</p>''"
    by (simp add: get_map_html_def)
  with u show "get_embed_url api_key exchange_name = []
     \<and> get_map_html api_key exchange_name width height
         = ''<p>Google Maps API key not configured</p>''"
    by simp
qed

theorem no_maps_key_degrades_witness:
  "\<not> key_configured None
   \<and> get_embed_url None ''Tokyo Stock Exchange'' = []
   \<and> get_map_html None ''Tokyo Stock Exchange'' 600 450
       = ''<p>Google Maps API key not configured</p>''
   \<and> \<not> key_configured (Some [])
   \<and> get_embed_url (Some []) ''Atlantis Exchange'' = []
   \<and> get_map_html (Some []) ''Atlantis Exchange'' 600 450
       = ''<p>Google Maps API key not configured</p>''"
  using no_maps_key_degrades [of None "''Tokyo Stock Exchange''" 600 450]
        no_maps_key_degrades [of "Some []" "''Atlantis Exchange''" 600 450]
  by simp

lemma tokyo_location:
  "map_of exchange_locations ''Tokyo Stock Exchange'' =
     Some \<lparr>address = ''Tokyo Stock Exchange, 2-1 Nihonbashi-Kabutocho, Chuo City, Tokyo, Japan'',
           lat = 35.6809, lng = 139.7776, query = ''Tokyo Stock Exchange''\<rparr>"
  by code_simp

lemma tokyo_url:
  "get_embed_url (Some ''KEY'') ''Tokyo Stock Exchange'' =
     ''https://www.google.com/maps/embed/v1/place?key=KEY&q=Tokyo+Stock+Exchange&zoom=15''"
  by (simp add: get_embed_url_def tokyo_location embed_base_def py_replace_def)

end
